theory Spec2Isabelle
  imports Complex_Main "HOL-Library.Word"
begin

section \<open>C++ strings, exceptions and outcomes\<close>

text \<open>
  A \<open>std::string\<close> is a \<open>string\<close> (a list of bytes). Reading it through
  \<open>c_str()\<close> as a C string (a \<open>qstring\<close> built from it, a \<open>%s\<close> argument of
  \<open>msg\<close> or \<open>warning\<close>) stops at the first NUL byte.
\<close>

definition nl :: char where
  "nl = CHR 0x0A"

definition c_str :: "string \<Rightarrow> string" where
  "c_str s = takeWhile (\<lambda>c. c \<noteq> CHR 0x00) s"

text \<open>\<open>std::to_string(int)\<close> and the \<open>%d\<close> conversion: decimal digits, a minus sign first.\<close>

definition digit :: "nat \<Rightarrow> char" where
  "digit d = ''0123456789'' ! d"

fun string_of_nat :: "nat \<Rightarrow> string" where
  "string_of_nat n =
     (if n < 10 then [digit n] else string_of_nat (n div 10) @ [digit (n mod 10)])"

declare string_of_nat.simps [simp del]

definition to_string :: "int \<Rightarrow> string" where
  "to_string i =
     (if i < 0 then CHR ''-'' # string_of_nat (nat (- i)) else string_of_nat (nat i))"

text \<open>
  What a C++ \<open>catch\<close> can see: an exception derived from \<open>std::exception\<close>, with its
  \<open>what()\<close> text, or any other thrown object. An evaluation either returns a value,
  throws, or has undefined behaviour (which no handler catches).
\<close>

datatype exn = StdException string | OtherException

datatype 'a outcome = Returns 'a | Throws exn | Undefined

definition bind :: "'a outcome \<Rightarrow> ('a \<Rightarrow> 'b outcome) \<Rightarrow> 'b outcome" where
  "bind m f = (case m of Returns a \<Rightarrow> f a | Throws x \<Rightarrow> Throws x | Undefined \<Rightarrow> Undefined)"

section \<open>JSON values of the nlohmann library\<close>

text \<open>
  The values \<open>json::parse\<close> can produce. An object is kept as an association list whose
  first binding of a key is the value of that key.
  The accessors follow the library: \<open>contains\<close> is false on anything but an object;
  \<open>empty\<close> is true on null and on an empty array or object, false on every scalar;
  \<open>operator[]\<close> on a \<open>const json&\<close> throws \<open>type_error\<close> 305 on a value of the
  wrong type, and is undefined on a missing key or an index out of range;
  \<open>get<std::string>\<close> and \<open>get<bool>\<close> throw \<open>type_error\<close> 302 on a value of
  another type.
\<close>

datatype json =
    JNull
  | JBool bool
  | JInt int
  | JFloat real
  | JString string
  | JArray "json list"
  | JObject "(string \<times> json) list"

definition type_name :: "json \<Rightarrow> string" where
  "type_name j =
     (case j of
        JNull \<Rightarrow> ''null''
      | JBool _ \<Rightarrow> ''boolean''
      | JInt _ \<Rightarrow> ''number''
      | JFloat _ \<Rightarrow> ''number''
      | JString _ \<Rightarrow> ''string''
      | JArray _ \<Rightarrow> ''array''
      | JObject _ \<Rightarrow> ''object'')"

definition type_error_305_key :: "json \<Rightarrow> exn" where
  "type_error_305_key j =
     StdException (''[json.exception.type_error.305] cannot use operator[] with a string argument with ''
       @ type_name j)"

definition type_error_305_index :: "json \<Rightarrow> exn" where
  "type_error_305_index j =
     StdException (''[json.exception.type_error.305] cannot use operator[] with a numeric argument with ''
       @ type_name j)"

definition type_error_302 :: "string \<Rightarrow> json \<Rightarrow> exn" where
  "type_error_302 expected j =
     StdException (''[json.exception.type_error.302] type must be '' @ expected @ '', but is ''
       @ type_name j)"

definition json_contains :: "json \<Rightarrow> string \<Rightarrow> bool" where
  "json_contains j k = (case j of JObject kvs \<Rightarrow> map_of kvs k \<noteq> None | _ \<Rightarrow> False)"

definition json_empty :: "json \<Rightarrow> bool" where
  "json_empty j =
     (case j of JNull \<Rightarrow> True | JArray xs \<Rightarrow> xs = [] | JObject kvs \<Rightarrow> kvs = [] | _ \<Rightarrow> False)"

text \<open>\<open>operator[](key) const\<close> and \<open>operator[](index) const\<close>.\<close>

definition const_at_key :: "json \<Rightarrow> string \<Rightarrow> json outcome" where
  "const_at_key j k =
     (case j of
        JObject kvs \<Rightarrow> (case map_of kvs k of Some v \<Rightarrow> Returns v | None \<Rightarrow> Undefined)
      | _ \<Rightarrow> Throws (type_error_305_key j))"

definition const_at_index :: "json \<Rightarrow> nat \<Rightarrow> json outcome" where
  "const_at_index j i =
     (case j of
        JArray xs \<Rightarrow> (if i < length xs then Returns (xs ! i) else Undefined)
      | _ \<Rightarrow> Throws (type_error_305_index j))"

text \<open>
  \<open>operator[](key)\<close> on a non-const value: a null becomes an object, and a missing key
  is inserted with the value null, which is what the call then returns.
\<close>

definition at_key :: "json \<Rightarrow> string \<Rightarrow> json outcome" where
  "at_key j k =
     (case j of
        JNull \<Rightarrow> Returns JNull
      | JObject kvs \<Rightarrow> Returns (case map_of kvs k of Some v \<Rightarrow> v | None \<Rightarrow> JNull)
      | _ \<Rightarrow> Throws (type_error_305_key j))"

fun update_key :: "string \<Rightarrow> json \<Rightarrow> (string \<times> json) list \<Rightarrow> (string \<times> json) list" where
  "update_key k v [] = [(k, v)]"
| "update_key k v ((k', v') # kvs) =
     (if k' = k then (k, v) # kvs else (k', v') # update_key k v kvs)"

text \<open>\<open>j[key] = v\<close> on a non-const value.\<close>

definition set_key :: "json \<Rightarrow> string \<Rightarrow> json \<Rightarrow> json outcome" where
  "set_key j k v =
     (case j of
        JNull \<Rightarrow> Returns (JObject [(k, v)])
      | JObject kvs \<Rightarrow> Returns (JObject (update_key k v kvs))
      | _ \<Rightarrow> Throws (type_error_305_key j))"

definition get_string :: "json \<Rightarrow> string outcome" where
  "get_string j = (case j of JString s \<Rightarrow> Returns s | _ \<Rightarrow> Throws (type_error_302 ''string'' j))"

definition get_bool :: "json \<Rightarrow> bool outcome" where
  "get_bool j = (case j of JBool b \<Rightarrow> Returns b | _ \<Rightarrow> Throws (type_error_302 ''boolean'' j))"

section \<open>Settings, events and the collaborators outside the sources\<close>

text \<open>The fields of \<open>settings_t\<close> that the client code reads.\<close>

record settings_t =
  api_provider :: string
  gemini_api_key :: string
  gemini_model_name :: string
  openai_api_key :: string
  openai_model_name :: string
  anthropic_api_key :: string
  anthropic_model_name :: string
  copilot_proxy_address :: string
  copilot_model_name :: string
  temperature :: real

type_synonym ea_t = "64 word"

definition BADADDR :: ea_t where
  "BADADDR = - 1"

type_synonym qtimer_t = "nat option"

record http_request =
  req_host :: string
  req_path :: string
  req_headers :: "(string \<times> string) list"
  req_body :: string

text \<open>
  \<open>httplib::Error\<close>: the enumerator \<open>Canceled\<close>, and every other one by the text
  \<open>httplib::to_string\<close> gives it.
\<close>

datatype http_error = Canceled | OtherError string

text \<open>
  What the calls on the HTTP client inside the \<open>try\<close> block of \<open>_http_post_request\<close> did:
  one of them threw, or \<open>Post\<close> came back without a response, or with one (status, body).
\<close>

datatype post_outcome =
    PostThrew exn
  | PostFailed http_error
  | PostResponse int string

text \<open>What the program does to the world around it, in the order it does it.\<close>

datatype event =
    Msg string
  | Warning string
  | CallbackInvoked string
  | AddrCallbackInvoked ea_t
  | JoinWorker
  | RegisterTimer nat
  | UnregisterTimer nat
  | SpawnWorker string real
  | HttpPost http_request
  | HttpStop
  | ExecuteSync
  | DeleteRequest

datatype prompt_template =
    ANALYZE_FUNCTION_PROMPT
  | SUGGEST_NAME_PROMPT
  | GENERATE_STRUCT_PROMPT
  | GENERATE_HOOK_PROMPT
  | CUSTOM_QUERY_PROMPT
  | LOCATE_GLOBAL_POINTER_PROMPT

text \<open>
  What \<open>json::parse\<close> does with a text: it returns a value, or throws
  \<open>json::parse_error\<close>, or throws another of the library's exceptions (\<open>out_of_range\<close>
  406 on a number too large, as in \<open>1e999\<close>); each exception with its \<open>what()\<close>. All
  of them derive from \<open>std::exception\<close>.
\<close>

datatype parse_outcome = Parsed json | ParseError string | ParseOther string

text \<open>
  The libraries and the parts of the plugin that the sources call and do not define:
  \<open>json::parse\<close>; \<open>json::dump\<close> by its indent (\<open>None\<close> for the compact form), which
  returns the text (\<open>Inr\<close>) or throws \<open>type_error\<close> 316, on a string that is not
  UTF-8 (\<open>Inl\<close>, its \<open>what()\<close>); the HTTP library's answer to a request; the handle
  \<open>register_timer\<close> returns; \<open>BASE_PROMPT\<close>; and \<open>ida_utils\<close>.
\<close>

record env =
  json_parse :: "string \<Rightarrow> parse_outcome"
  json_dump :: "nat option \<Rightarrow> json \<Rightarrow> string + string"
  http_post :: "http_request \<Rightarrow> post_outcome"
  register_timer :: qtimer_t
  BASE_PROMPT :: string
  get_context_for_prompt :: "ea_t \<Rightarrow> bool \<Rightarrow> nat \<Rightarrow> json"
  format_prompt :: "prompt_template \<Rightarrow> json \<Rightarrow> string"
  get_func_name :: "ea_t \<Rightarrow> string"

section \<open>The client\<close>

datatype provider = GeminiClient | OpenAIClient | AnthropicClient | CopilotClient

text \<open>
  \<open>AIClientBase\<close> and its four subclasses: the subclass, \<open>_settings\<close>, \<open>_model_name\<close>,
  the atomic flags \<open>_cancelled\<close> and \<open>_task_done\<close>, whether \<open>_http_client\<close> holds a
  live handle, whether \<open>_worker_thread\<close> is joinable, and whether the strong
  \<open>_validity_token\<close> still exists (it goes with the client). A new client has no
  request behind it: both flags down, no handle, no worker, the token made.
\<close>

record ai_client =
  kind :: provider
  settings :: settings_t
  model_name :: string
  cancelled :: bool
  task_done :: bool
  http_client :: bool
  worker_joinable :: bool
  validity_token :: bool

definition new_client :: "provider \<Rightarrow> settings_t \<Rightarrow> ai_client" where
  "new_client p s =
     \<lparr> kind = p, settings = s,
       model_name =
         (case p of
            GeminiClient \<Rightarrow> gemini_model_name s
          | OpenAIClient \<Rightarrow> openai_model_name s
          | AnthropicClient \<Rightarrow> anthropic_model_name s
          | CopilotClient \<Rightarrow> copilot_model_name s),
       cancelled = False, task_done = False, http_client = False,
       worker_joinable = False, validity_token = True \<rparr>"

definition is_available :: "ai_client \<Rightarrow> bool" where
  "is_available c =
     (case kind c of
        GeminiClient \<Rightarrow> gemini_api_key (settings c) \<noteq> []
      | OpenAIClient \<Rightarrow> openai_api_key (settings c) \<noteq> []
      | AnthropicClient \<Rightarrow> anthropic_api_key (settings c) \<noteq> []
      | CopilotClient \<Rightarrow> copilot_proxy_address (settings c) \<noteq> [])"

definition cancel_current_request :: "ai_client \<Rightarrow> ai_client \<times> event list" where
  "cancel_current_request c =
     (c\<lparr>cancelled := True\<rparr>, if http_client c then [HttpStop] else [])"

text \<open>
  \<open>timer_cb\<close>, with the answer of \<open>user_cancelled()\<close>; the integer is the next period,
  \<open>-1\<close> to stop the timer.
\<close>

definition timer_cb :: "ai_client \<Rightarrow> bool \<Rightarrow> ai_client \<times> event list \<times> int" where
  "timer_cb c user_cancelled =
     (if task_done c then (c, [], - 1)
      else if user_cancelled then
        (let (c', evs) = cancel_current_request c in (c', evs, - 1))
      else (c, [], 100))"

text \<open>
  What the host thread can do to the client while the worker thread runs: cancel, a tick
  of the poll timer, or destroy the client. The destructor cancels, then waits for the
  worker; the strong validity token is gone before any finalization task still queued
  on the host thread runs. From the start of its destruction the client counts as gone:
  \<open>validity_token\<close> is false from there on.
\<close>

datatype host_action = CancelCurrentRequest | TimerTick bool | DestroyClient

definition host_action :: "host_action \<Rightarrow> ai_client \<Rightarrow> ai_client \<times> event list" where
  "host_action a c =
     (case a of
        CancelCurrentRequest \<Rightarrow> cancel_current_request c
      | TimerTick u \<Rightarrow> (let (c', evs, _) = timer_cb c u in (c', evs))
      | DestroyClient \<Rightarrow>
          (let (c', evs) = cancel_current_request c in (c'\<lparr>validity_token := False\<rparr>, evs)))"

fun host_actions :: "host_action list \<Rightarrow> ai_client \<Rightarrow> ai_client \<times> event list" where
  "host_actions [] c = (c, [])"
| "host_actions (a # as) c =
     (let (c1, ev1) = host_action a c; (c2, ev2) = host_actions as c1 in (c2, ev1 @ ev2))"

text \<open>
  The host thread's actions in each interval of a request's life on the worker thread:
  before the HTTP handle is stored, while it is live (\<open>Post\<close> in flight), after it is
  cleared and before \<open>_cancelled\<close> is read in \<open>_http_post_request\<close>, from there until the
  worker reads \<open>_cancelled\<close>, and from \<open>execute_sync\<close> until the finalization task runs.
  A destruction in the first interval is taken at its earliest, before the worker has
  called \<open>_blocking_generate\<close>.
\<close>

record schedule =
  before_connect :: "host_action list"
  during_post :: "host_action list"
  before_cancel_check :: "host_action list"
  before_worker_load :: "host_action list"
  before_finalization :: "host_action list"

section \<open>The transport adapter\<close>

text \<open>The \<open>catch (const std::exception&)\<close> of \<open>_http_post_request\<close>.\<close>

definition api_call_failed :: "string \<Rightarrow> string \<Rightarrow> event list \<times> string" where
  "api_call_failed host w =
     ([Warning (''AI Assistant: API call to '' @ c_str host @ '' failed: '' @ w @ [nl])],
      ''Error: API call failed. Details: '' @ w)"

text \<open>
  The \<open>error_details\<close> of a response with a status other than 200. Its inner handler
  catches \<open>json::parse_error\<close> only: every other exception of \<open>json::parse\<close> or of
  \<open>dump(2)\<close> leaves it, for the handler of \<open>_http_post_request\<close>.
\<close>

definition error_details :: "env \<Rightarrow> string \<Rightarrow> string outcome" where
  "error_details e body =
     (if body = [] then Returns ''No details in response body.''
      else (case json_parse e body of
              Parsed j \<Rightarrow>
                (case json_dump e (Some 2) j of
                   Inr d \<Rightarrow> Returns (c_str d)
                 | Inl w \<Rightarrow> Throws (StdException w))
            | ParseError _ \<Rightarrow> Returns (c_str body)
            | ParseOther w \<Rightarrow> Throws (StdException w)))"

definition api_error_msg :: "string \<Rightarrow> int \<Rightarrow> string \<Rightarrow> event" where
  "api_error_msg host status details =
     Msg (''AiDA: API Error. Host: '' @ c_str host @ '', Status: '' @ to_string status @ [nl]
          @ ''Response body: '' @ c_str details @ [nl])"

definition http_post_request ::
  "env \<Rightarrow> schedule \<Rightarrow> ai_client \<Rightarrow> http_request \<Rightarrow> (json \<Rightarrow> event list \<times> string outcome)
     \<Rightarrow> ai_client \<times> event list \<times> string outcome" where
  "http_post_request e sch c rq response_parser =
     (let c1 = c\<lparr>http_client := True\<rparr>;
          (c2, ev2) = host_actions (during_post sch) c1;
          evs = HttpPost rq # ev2
      in case http_post e rq of
           PostThrew (StdException w) \<Rightarrow>
             (let (wev, r) = api_call_failed (req_host rq) w
              in (c2\<lparr>http_client := False\<rparr>, evs @ wev, Returns r))
         | PostThrew OtherException \<Rightarrow> (c2, evs, Throws OtherException)
         | res \<Rightarrow>
             (let c3 = c2\<lparr>http_client := False\<rparr>;
                  (c4, ev4) = host_actions (before_cancel_check sch) c3;
                  evs = evs @ ev4
              in if cancelled c4 then (c4, evs, Returns ''Error: Operation cancelled.'')
                 else (case res of
                    PostFailed Canceled \<Rightarrow> (c4, evs, Returns ''Error: Operation cancelled.'')
                  | PostFailed (OtherError txt) \<Rightarrow>
                      (c4, evs, Returns (''Error: HTTP request failed: '' @ txt))
                  | PostResponse status body \<Rightarrow>
                      if status \<noteq> 200 then
                        (case error_details e body of
                           Returns details \<Rightarrow>
                             (c4, evs @ [api_error_msg (req_host rq) status details],
                              Returns (''Error: API returned status '' @ to_string status))
                         | Throws (StdException w) \<Rightarrow>
                             (let (wev, r) = api_call_failed (req_host rq) w
                              in (c4, evs @ wev, Returns r))
                         | Throws OtherException \<Rightarrow> (c4, evs, Throws OtherException)
                         | Undefined \<Rightarrow> (c4, evs, Undefined))
                      else (case json_parse e body of
                          ParseError w \<Rightarrow>
                            (let (wev, r) = api_call_failed (req_host rq) w
                             in (c4, evs @ wev, Returns r))
                        | ParseOther w \<Rightarrow>
                            (let (wev, r) = api_call_failed (req_host rq) w
                             in (c4, evs @ wev, Returns r))
                        | Parsed jres \<Rightarrow>
                            (case response_parser jres of
                               (pev, Throws (StdException w)) \<Rightarrow>
                                 (let (wev, r) = api_call_failed (req_host rq) w
                                  in (c4, evs @ pev @ wev, Returns r))
                             | (pev, out) \<Rightarrow> (c4, evs @ pev, out))))))"

section \<open>The provider adapters\<close>

text \<open>\<open>jres.contains(key) && !jres[key].empty()\<close>, on a \<open>const json&\<close>.\<close>

definition has_nonempty :: "json \<Rightarrow> string \<Rightarrow> bool" where
  "has_nonempty jres k =
     (json_contains jres k \<and>
      (case const_at_key jres k of Returns v \<Rightarrow> \<not> json_empty v | _ \<Rightarrow> False))"

text \<open>
  The last two statements of each parser. \<open>jres.dump()\<close> is evaluated first for the
  message; when it throws, nothing is logged and the exception leaves the parser.
\<close>

definition invalid_response :: "env \<Rightarrow> string \<Rightarrow> json \<Rightarrow> event list \<times> string outcome" where
  "invalid_response e provider_name jres =
     (case json_dump e None jres of
        Inl w \<Rightarrow> ([], Throws (StdException w))
      | Inr d \<Rightarrow>
          ([Msg (''AiDA: Invalid '' @ provider_name @ '' API response.'' @ [nl] @ ''Response body: ''
                 @ c_str d @ [nl])],
           Returns (''Error: Received empty or invalid response from API. '' @ d)))"

definition gemini_parser :: "env \<Rightarrow> json \<Rightarrow> event list \<times> string outcome" where
  "gemini_parser e jres =
     (if has_nonempty jres ''candidates'' then
        ([], bind (const_at_key jres ''candidates'') (\<lambda>cands.
             bind (const_at_index cands 0) (\<lambda>cand.
             bind (const_at_key cand ''content'') (\<lambda>content.
             bind (const_at_key content ''parts'') (\<lambda>parts.
             bind (const_at_index parts 0) (\<lambda>part.
             bind (const_at_key part ''text'') get_string))))))
      else invalid_response e ''Gemini'' jres)"

definition openai_parser :: "env \<Rightarrow> json \<Rightarrow> event list \<times> string outcome" where
  "openai_parser e jres =
     (if has_nonempty jres ''choices'' then
        ([], bind (const_at_key jres ''choices'') (\<lambda>choices.
             bind (const_at_index choices 0) (\<lambda>choice.
             bind (const_at_key choice ''message'') (\<lambda>message.
             bind (const_at_key message ''content'') get_string))))
      else invalid_response e ''OpenAI'' jres)"

definition anthropic_parser :: "env \<Rightarrow> json \<Rightarrow> event list \<times> string outcome" where
  "anthropic_parser e jres =
     (if has_nonempty jres ''content'' then
        ([], bind (const_at_key jres ''content'') (\<lambda>content.
             bind (const_at_index content 0) (\<lambda>block.
             bind (const_at_key block ''text'') get_string)))
      else invalid_response e ''Anthropic'' jres)"

definition copilot_parser :: "env \<Rightarrow> json \<Rightarrow> event list \<times> string outcome" where
  "copilot_parser e jres =
     (if has_nonempty jres ''choices'' then
        ([], bind (const_at_key jres ''choices'') (\<lambda>choices.
             bind (const_at_index choices 0) (\<lambda>choice.
             bind (const_at_key choice ''message'') (\<lambda>message.
             bind (const_at_key message ''content'') get_string))))
      else invalid_response e ''Copilot'' jres)"

text \<open>
  Each \<open>_blocking_generate\<close> builds its JSON payload, and then the arguments of
  \<open>_http_post_request\<close>: host, path, headers, and \<open>payload.dump()\<close> for the body.
\<close>

definition gemini_payload :: "string \<Rightarrow> real \<Rightarrow> json" where
  "gemini_payload prompt_text temp =
     JObject
       [(''contents'',
         JArray [JObject [(''role'', JString ''user''),
                          (''parts'', JArray [JObject [(''text'', JString prompt_text)]])]]),
        (''generationConfig'', JObject [(''temperature'', JFloat temp)])]"

definition gemini_request :: "ai_client \<Rightarrow> string \<Rightarrow> http_request" where
  "gemini_request c body =
     \<lparr> req_host = ''https://generativelanguage.googleapis.com'',
       req_path = ''/v1beta/models/'' @ model_name c @ '':generateContent?key=''
                  @ gemini_api_key (settings c),
       req_headers = [],
       req_body = body \<rparr>"

definition chat_messages :: "env \<Rightarrow> string \<Rightarrow> json" where
  "chat_messages e prompt_text =
     JArray [JObject [(''role'', JString ''system''), (''content'', JString (BASE_PROMPT e))],
             JObject [(''role'', JString ''user''), (''content'', JString prompt_text)]]"

definition openai_payload :: "env \<Rightarrow> ai_client \<Rightarrow> string \<Rightarrow> real \<Rightarrow> json" where
  "openai_payload e c prompt_text temp =
     JObject [(''model'', JString (model_name c)),
              (''messages'', chat_messages e prompt_text),
              (''temperature'', JFloat temp)]"

definition openai_request :: "ai_client \<Rightarrow> string \<Rightarrow> http_request" where
  "openai_request c body =
     \<lparr> req_host = ''https://api.openai.com'',
       req_path = ''/v1/chat/completions'',
       req_headers = [(''Authorization'', ''Bearer '' @ openai_api_key (settings c)),
                      (''Content-Type'', ''application/json'')],
       req_body = body \<rparr>"

definition anthropic_payload :: "env \<Rightarrow> ai_client \<Rightarrow> string \<Rightarrow> real \<Rightarrow> json" where
  "anthropic_payload e c prompt_text temp =
     JObject [(''model'', JString (model_name c)),
              (''system'', JString (BASE_PROMPT e)),
              (''messages'',
               JArray [JObject [(''role'', JString ''user''),
                                (''content'', JString prompt_text)]]),
              (''max_tokens'', JInt 4096),
              (''temperature'', JFloat temp)]"

definition anthropic_request :: "ai_client \<Rightarrow> string \<Rightarrow> http_request" where
  "anthropic_request c body =
     \<lparr> req_host = ''https://api.anthropic.com'',
       req_path = ''/v1/messages'',
       req_headers = [(''x-api-key'', anthropic_api_key (settings c)),
                      (''anthropic-version'', ''2023-06-01''),
                      (''Content-Type'', ''application/json'')],
       req_body = body \<rparr>"

definition copilot_payload :: "env \<Rightarrow> ai_client \<Rightarrow> string \<Rightarrow> real \<Rightarrow> json" where
  "copilot_payload e c prompt_text temp =
     JObject [(''model'', JString (model_name c)),
              (''messages'', chat_messages e prompt_text),
              (''temperature'', JFloat temp)]"

definition copilot_request :: "ai_client \<Rightarrow> string \<Rightarrow> http_request" where
  "copilot_request c body =
     \<lparr> req_host = copilot_proxy_address (settings c),
       req_path = ''/v1/chat/completions'',
       req_headers = [(''Content-Type'', ''application/json'')],
       req_body = body \<rparr>"

text \<open>
  The virtual \<open>_blocking_generate\<close>, by the subclass of the client. \<open>payload.dump()\<close>
  is an argument of the call of \<open>_http_post_request\<close>, evaluated before the call and
  outside its \<open>try\<close>: when it throws, the exception leaves \<open>_blocking_generate\<close> and
  nothing is posted.
\<close>

definition blocking_generate ::
  "env \<Rightarrow> schedule \<Rightarrow> ai_client \<Rightarrow> string \<Rightarrow> real \<Rightarrow> ai_client \<times> event list \<times> string outcome" where
  "blocking_generate e sch c prompt_text temp =
     (case kind c of
        GeminiClient \<Rightarrow>
          if \<not> is_available c then
            (c, [], Returns ''Error: Gemini client is not initialized. Check API key.'')
          else (case json_dump e None (gemini_payload prompt_text temp) of
                  Inl w \<Rightarrow> (c, [], Throws (StdException w))
                | Inr body \<Rightarrow>
                    http_post_request e sch c (gemini_request c body) (gemini_parser e))
      | OpenAIClient \<Rightarrow>
          if \<not> is_available c then
            (c, [], Returns ''Error: OpenAI client is not initialized. Check API key.'')
          else (case json_dump e None (openai_payload e c prompt_text temp) of
                  Inl w \<Rightarrow> (c, [], Throws (StdException w))
                | Inr body \<Rightarrow>
                    http_post_request e sch c (openai_request c body) (openai_parser e))
      | AnthropicClient \<Rightarrow>
          if \<not> is_available c then
            (c, [], Returns ''Error: Anthropic client is not initialized. Check API key.'')
          else (case json_dump e None (anthropic_payload e c prompt_text temp) of
                  Inl w \<Rightarrow> (c, [], Throws (StdException w))
                | Inr body \<Rightarrow>
                    http_post_request e sch c (anthropic_request c body) (anthropic_parser e))
      | CopilotClient \<Rightarrow>
          if \<not> is_available c then
            (c, [], Returns
               ''Error: Copilot client is not configured. Please set the proxy address in settings.'')
          else (case json_dump e None (copilot_payload e c prompt_text temp) of
                  Inl w \<Rightarrow> (c, [], Throws (StdException w))
                | Inr body \<Rightarrow>
                    http_post_request e sch c (copilot_request c body) (copilot_parser e)))"

section \<open>The request orchestrator\<close>

text \<open>
  A \<open>callback_t\<close> is a \<open>std::function\<close>: empty (\<open>None\<close>), or a function that, called
  on the result string, returns (\<open>None\<close>) or throws.
\<close>

type_synonym callback_t = "(string \<Rightarrow> exn option) option"

type_synonym addr_callback_t = "(ea_t \<Rightarrow> exn option) option"

text \<open>
  \<open>ai_request_t\<close>. Its weak \<open>client_validity_token\<close> resolves exactly while the client's
  strong token exists, so \<open>execute\<close> takes that as an argument.
\<close>

record ai_request_t =
  result :: string
  was_cancelled :: bool
  callback :: callback_t
  timer :: qtimer_t

definition new_request :: "callback_t \<Rightarrow> qtimer_t \<Rightarrow> ai_request_t" where
  "new_request cb t = \<lparr> result = [], was_cancelled = False, callback = cb, timer = t \<rparr>"

definition execute :: "bool \<Rightarrow> ai_request_t \<Rightarrow> event list" where
  "execute token_resolves req =
     (if \<not> token_resolves then [DeleteRequest]
      else
        (case timer req of None \<Rightarrow> [] | Some t \<Rightarrow> [UnregisterTimer t])
        @ (if was_cancelled req then
             [Msg (''AI Assistant: Operation cancelled by user.'' @ [nl])]
           else
             (case callback req of
                None \<Rightarrow> []
              | Some f \<Rightarrow>
                  CallbackInvoked (result req) #
                  (case f (result req) of
                     None \<Rightarrow> []
                   | Some (StdException w) \<Rightarrow>
                       [Warning (''AI Assistant: Exception caught during AI request callback execution: ''
                                 @ w)]
                   | Some OtherException \<Rightarrow>
                       [Warning ''AI Assistant: Unknown exception caught during AI request callback execution.''])))
        @ [DeleteRequest])"

text \<open>
  \<open>_generate\<close>, the part that runs on the calling thread: it returns the client, the
  request it allocated, and what it did. The worker it spawns is \<open>worker_func\<close>.
\<close>

definition generate ::
  "env \<Rightarrow> ai_client \<Rightarrow> string \<Rightarrow> callback_t \<Rightarrow> real \<Rightarrow> ai_client \<times> ai_request_t \<times> event list" where
  "generate e c prompt_text cb temp =
     (let joined = (if worker_joinable c then [JoinWorker] else []);
          c1 = c\<lparr>cancelled := False, task_done := False\<rparr>;
          req = new_request cb (register_timer e)
      in (c1\<lparr>worker_joinable := True\<rparr>, req,
          joined @ [RegisterTimer 100, SpawnWorker prompt_text temp]))"

text \<open>The two handlers around \<open>_blocking_generate\<close> in the worker.\<close>

definition worker_catch :: "exn + string \<Rightarrow> string \<times> event list" where
  "worker_catch r =
     (case r of
        Inr s \<Rightarrow> (s, [])
      | Inl (StdException w) \<Rightarrow>
          (let res = ''Error: Exception in worker thread: '' @ w
           in (res, [Warning (''AiDA: '' @ c_str res)]))
      | Inl OtherException \<Rightarrow>
          (let res = ''Error: Unknown exception in worker thread.''
           in (res, [Warning (''AiDA: '' @ c_str res)])))"

text \<open>
  The body of the worker thread. \<open>None\<close>: undefined behaviour, and nothing is known
  of what follows. That is the case when \<open>_blocking_generate\<close> has it, and when the
  client is already being destroyed as the worker comes to call \<open>_blocking_generate\<close>:
  the destructor of \<open>AIClientBase\<close>, where the worker is joined, runs after the subclass
  is gone, and the call is a virtual call of the subclass's function.
\<close>

definition worker_func ::
  "env \<Rightarrow> schedule \<Rightarrow> ai_client \<Rightarrow> ai_request_t \<Rightarrow> string \<Rightarrow> real
     \<Rightarrow> (ai_client \<times> ai_request_t \<times> event list) option" where
  "worker_func e sch c req prompt_text temp =
     (let (c0, ev0) = host_actions (before_connect sch) c;
          (c1, ev1, out) = blocking_generate e sch c0 prompt_text temp;
          finish = (\<lambda>r.
            let (res, wev) = worker_catch r;
                (c2, ev2) = host_actions (before_worker_load sch) c1;
                c3 = c2\<lparr>task_done := True\<rparr>;
                wc = cancelled c3;
                req' = req\<lparr>was_cancelled := wc, result := (if \<not> wc then res else result req)\<rparr>
            in Some (c3, req', ev0 @ ev1 @ wev @ ev2 @ [ExecuteSync]))
      in if \<not> validity_token c0 then None
         else (case out of
                 Returns s \<Rightarrow> finish (Inr s)
               | Throws x \<Rightarrow> finish (Inl x)
               | Undefined \<Rightarrow> None))"

text \<open>
  One request from \<open>_generate\<close> to the end of its finalization task: the events of the
  calling thread, of the worker's life (with the host's actions meanwhile), of the host
  before the finalization task, and of the finalization task itself; with them, the
  request as the worker handed it over and the client as the finalization task finds it.
\<close>

record trace =
  started :: "event list"
  worked :: "event list"
  waited :: "event list"
  finalized :: "event list"
  handed :: ai_request_t
  owner :: ai_client

definition run_request ::
  "env \<Rightarrow> schedule \<Rightarrow> ai_client \<Rightarrow> string \<Rightarrow> callback_t \<Rightarrow> real \<Rightarrow> trace option" where
  "run_request e sch c prompt_text cb temp =
     (let (c1, req, ev_start) = generate e c prompt_text cb temp
      in case worker_func e sch c1 req prompt_text temp of
           None \<Rightarrow> None
         | Some (c2, req', ev_worker) \<Rightarrow>
             (let (c3, ev_host) = host_actions (before_finalization sch) c2
              in Some \<lparr> started = ev_start, worked = ev_worker, waited = ev_host,
                        finalized = execute (validity_token c3) req',
                        handed = req', owner = c3 \<rparr>))"

section \<open>The operations on the calling thread\<close>

definition invoke :: "callback_t \<Rightarrow> string \<Rightarrow> event list \<times> exn option" where
  "invoke cb s =
     (case cb of
        None \<Rightarrow> ([], Some (StdException ''bad_function_call''))
      | Some f \<Rightarrow> ([CallbackInvoked s], f s))"

definition invoke_addr :: "addr_callback_t \<Rightarrow> ea_t \<Rightarrow> event list \<times> exn option" where
  "invoke_addr cb a =
     (case cb of
        None \<Rightarrow> ([], Some (StdException ''bad_function_call''))
      | Some f \<Rightarrow> ([AddrCallbackInvoked a], f a))"

definition thrown :: "exn option \<Rightarrow> unit outcome" where
  "thrown x = (case x of None \<Rightarrow> Returns () | Some ex \<Rightarrow> Throws ex)"

text \<open>
  The guard that opens the five operations with a string callback:
  \<open>if (!context["ok"].get<bool>()) { callback(context["message"].get<std::string>()); return; }\<close>.
  \<open>Some\<close>: the operation ends here, with these events and this outcome; \<open>None\<close>: it goes on.
\<close>

definition context_guard :: "json \<Rightarrow> callback_t \<Rightarrow> (event list \<times> unit outcome) option" where
  "context_guard context cb =
     (case bind (at_key context ''ok'') get_bool of
        Returns True \<Rightarrow> None
      | Returns False \<Rightarrow>
          Some (case bind (at_key context ''message'') get_string of
                  Returns m \<Rightarrow> (let (ev, x) = invoke cb m in (ev, thrown x))
                | Throws x \<Rightarrow> ([], Throws x)
                | Undefined \<Rightarrow> ([], Undefined))
      | Throws x \<Rightarrow> Some ([], Throws x)
      | Undefined \<Rightarrow> Some ([], Undefined))"

text \<open>
  Each operation returns the client, the request it started (if it started one), the
  events on the calling thread, and how the call ended.
\<close>

type_synonym op_result = "ai_client \<times> ai_request_t option \<times> event list \<times> unit outcome"

definition start :: "env \<Rightarrow> ai_client \<Rightarrow> string \<Rightarrow> callback_t \<Rightarrow> real \<Rightarrow> op_result" where
  "start e c prompt cb temp =
     (let (c', req, ev) = generate e c prompt cb temp in (c', Some req, ev, Returns ()))"

definition analyze_function :: "env \<Rightarrow> ai_client \<Rightarrow> ea_t \<Rightarrow> callback_t \<Rightarrow> op_result" where
  "analyze_function e c ea cb =
     (let context = get_context_for_prompt e ea False 0
      in case context_guard context cb of
           Some (ev, out) \<Rightarrow> (c, None, ev, out)
         | None \<Rightarrow>
             start e c (format_prompt e ANALYZE_FUNCTION_PROMPT context) cb
               (temperature (settings c)))"

definition suggest_name :: "env \<Rightarrow> ai_client \<Rightarrow> ea_t \<Rightarrow> callback_t \<Rightarrow> op_result" where
  "suggest_name e c ea cb =
     (let context = get_context_for_prompt e ea False 0
      in case context_guard context cb of
           Some (ev, out) \<Rightarrow> (c, None, ev, out)
         | None \<Rightarrow> start e c (format_prompt e SUGGEST_NAME_PROMPT context) cb 0)"

definition generate_struct :: "env \<Rightarrow> ai_client \<Rightarrow> ea_t \<Rightarrow> callback_t \<Rightarrow> op_result" where
  "generate_struct e c ea cb =
     (let context = get_context_for_prompt e ea True 0
      in case context_guard context cb of
           Some (ev, out) \<Rightarrow> (c, None, ev, out)
         | None \<Rightarrow> start e c (format_prompt e GENERATE_STRUCT_PROMPT context) cb 0)"

definition is_word_char :: "char \<Rightarrow> bool" where
  "is_word_char ch =
     (let n = (of_char ch :: nat)
      in (97 \<le> n \<and> n \<le> 122) \<or> (65 \<le> n \<and> n \<le> 90) \<or> (48 \<le> n \<and> n \<le> 57) \<or> ch = CHR ''_'')"

definition generate_hook :: "env \<Rightarrow> ai_client \<Rightarrow> ea_t \<Rightarrow> callback_t \<Rightarrow> op_result" where
  "generate_hook e c ea cb =
     (let context = get_context_for_prompt e ea False 0
      in case context_guard context cb of
           Some (ev, out) \<Rightarrow> (c, None, ev, out)
         | None \<Rightarrow>
             (let func_name = c_str (get_func_name e ea);
                  clean_func_name = map (\<lambda>ch. if is_word_char ch then ch else CHR ''_'') func_name
              in case set_key context ''func_name'' (JString clean_func_name) of
                   Returns context' \<Rightarrow>
                     start e c (format_prompt e GENERATE_HOOK_PROMPT context') cb 0
                 | Throws x \<Rightarrow> (c, None, [], Throws x)
                 | Undefined \<Rightarrow> (c, None, [], Undefined)))"

definition custom_query :: "env \<Rightarrow> ai_client \<Rightarrow> ea_t \<Rightarrow> string \<Rightarrow> callback_t \<Rightarrow> op_result" where
  "custom_query e c ea question cb =
     (let context = get_context_for_prompt e ea False 0
      in case context_guard context cb of
           Some (ev, out) \<Rightarrow> (c, None, ev, out)
         | None \<Rightarrow>
             (case set_key context ''user_question'' (JString question) of
                Returns context' \<Rightarrow>
                  start e c (format_prompt e CUSTOM_QUERY_PROMPT context') cb
                    (temperature (settings c))
              | Throws x \<Rightarrow> (c, None, [], Throws x)
              | Undefined \<Rightarrow> (c, None, [], Undefined)))"

text \<open>\<open>std::string::find(needle) != npos\<close>.\<close>

fun found :: "string \<Rightarrow> string \<Rightarrow> bool" where
  "found needle [] = (needle = [])"
| "found needle (ch # s) = (take (length needle) (ch # s) = needle \<or> found needle s)"

definition is_trim_char :: "char \<Rightarrow> bool" where
  "is_trim_char ch = (ch = CHR '' '' \<or> ch = CHR 0x09 \<or> ch = CHR 0x0A \<or> ch = CHR 0x0D)"

definition is_space :: "char \<Rightarrow> bool" where
  "is_space ch = (ch = CHR '' '' \<or> (let n = (of_char ch :: nat) in 9 \<le> n \<and> n \<le> 13))"

definition hex_value :: "char \<Rightarrow> nat option" where
  "hex_value ch =
     (let n = (of_char ch :: nat)
      in if 48 \<le> n \<and> n \<le> 57 then Some (n - 48)
         else if 97 \<le> n \<and> n \<le> 102 then Some (n - 87)
         else if 65 \<le> n \<and> n \<le> 70 then Some (n - 55)
         else None)"

text \<open>
  \<open>std::stoull(s, nullptr, 16)\<close>: white space, a sign, a \<open>0x\<close> prefix, then the longest
  run of hexadecimal digits; \<open>invalid_argument\<close> with no digit, \<open>out_of_range\<close> past
  64 bits; a minus sign negates the unsigned value.
\<close>

definition stoull16 :: "string \<Rightarrow> ea_t outcome" where
  "stoull16 s =
     (let s1 = dropWhile is_space s;
          (neg, s2) =
            (case s1 of
               [] \<Rightarrow> (False, s1)
             | ch # r \<Rightarrow>
                 if ch = CHR ''-'' then (True, r)
                 else if ch = CHR ''+'' then (False, r)
                 else (False, s1));
          s3 =
            (case s2 of
               z # x # h # r \<Rightarrow>
                 if z = CHR ''0'' \<and> (x = CHR ''x'' \<or> x = CHR ''X'') \<and> hex_value h \<noteq> None
                 then h # r else s2
             | _ \<Rightarrow> s2);
          ds = takeWhile (\<lambda>ch. hex_value ch \<noteq> None) s3;
          v = foldl (\<lambda>a d. 16 * a + (case hex_value d of Some x \<Rightarrow> x | None \<Rightarrow> 0)) 0 ds
      in if ds = [] then Throws (StdException ''stoull'')
         else if 2 ^ 64 \<le> v then Throws (StdException ''stoull'')
         else Returns (if neg then - word_of_nat v else word_of_nat v))"

text \<open>The lambda \<open>on_result\<close> of \<open>locate_global_pointer\<close>.\<close>

definition on_result :: "addr_callback_t \<Rightarrow> string \<Rightarrow> string \<Rightarrow> event list \<times> exn option" where
  "on_result cb target_name res =
     (if res \<noteq> [] \<and> \<not> found ''Error:'' res \<and> \<not> found ''None'' res then
        (let clean_result = filter (\<lambda>ch. ch \<noteq> CHR 0x60) res;
             clean_result = dropWhile is_trim_char clean_result;
             clean_result = rev (dropWhile is_trim_char (rev clean_result));
             handler = (\<lambda>ev.
               let (ev', x) = invoke_addr cb BADADDR
               in (ev @ [Msg (''AI Assistant: AI returned a non-address value for ''
                               @ c_str target_name @ '': '' @ c_str res @ [nl])] @ ev', x))
         in case stoull16 clean_result of
              Returns addr \<Rightarrow>
                (case invoke_addr cb addr of
                   (ev, Some (StdException w)) \<Rightarrow> handler ev
                 | (ev, x) \<Rightarrow> (ev, x))
            | Throws (StdException w) \<Rightarrow> handler []
            | Throws OtherException \<Rightarrow> ([], Some OtherException)
            | Undefined \<Rightarrow> ([], None))
      else invoke_addr cb BADADDR)"

definition locate_global_pointer ::
  "env \<Rightarrow> ai_client \<Rightarrow> ea_t \<Rightarrow> string \<Rightarrow> addr_callback_t \<Rightarrow> op_result" where
  "locate_global_pointer e c ea target_name cb =
     (let context = get_context_for_prompt e ea False 16000
      in case bind (at_key context ''ok'') get_bool of
           Returns False \<Rightarrow> (let (ev, x) = invoke_addr cb BADADDR in (c, None, ev, thrown x))
         | Returns True \<Rightarrow>
             (case set_key context ''target_name'' (JString target_name) of
                Returns context' \<Rightarrow>
                  start e c (format_prompt e LOCATE_GLOBAL_POINTER_PROMPT context')
                    (Some (\<lambda>res. snd (on_result cb target_name res))) 0
              | Throws x \<Rightarrow> (c, None, [], Throws x)
              | Undefined \<Rightarrow> (c, None, [], Undefined))
         | Throws x \<Rightarrow> (c, None, [], Throws x)
         | Undefined \<Rightarrow> (c, None, [], Undefined))"

section \<open>The client factory\<close>

text \<open>\<open>qstrlwr\<close>: every upper-case ASCII letter of a C string to lower case.\<close>

definition is_upper :: "char \<Rightarrow> bool" where
  "is_upper ch = (let n = (of_char ch :: nat) in 65 \<le> n \<and> n \<le> 90)"

definition to_lower :: "char \<Rightarrow> char" where
  "to_lower ch = (if is_upper ch then char_of ((of_char ch :: nat) + 32) else ch)"

definition qstrlwr :: "string \<Rightarrow> string" where
  "qstrlwr s = map to_lower s"

definition get_ai_client :: "settings_t \<Rightarrow> ai_client option \<times> event list" where
  "get_ai_client s =
     (let provider = qstrlwr (c_str (api_provider s));
          ev = [Msg (''AI Assistant: Initializing AI provider: '' @ provider @ [nl])]
      in if provider = ''gemini'' then (Some (new_client GeminiClient s), ev)
         else if provider = ''openai'' then (Some (new_client OpenAIClient s), ev)
         else if provider = ''anthropic'' then (Some (new_client AnthropicClient s), ev)
         else if provider = ''copilot'' then (Some (new_client CopilotClient s), ev)
         else (None,
               ev @ [Warning (''AI Assistant: Unknown AI provider '' @ [CHR 0x27] @ provider
                              @ [CHR 0x27] @ '' in settings. No AI features will be available.'')]))"

section \<open>Notions of the specification\<close>

text \<open>
  A host action that calls \<open>cancel_current_request\<close>: a direct call, a tick of the
  poll timer that sees the user's cancel, the destructor of the client.
\<close>

definition cancels :: "host_action \<Rightarrow> bool" where
  "cancels a =
     (case a of CancelCurrentRequest \<Rightarrow> True | TimerTick u \<Rightarrow> u | DestroyClient \<Rightarrow> True)"

definition is_callback :: "event \<Rightarrow> bool" where
  "is_callback ev = (case ev of CallbackInvoked _ \<Rightarrow> True | _ \<Rightarrow> False)"

text \<open>
  A field path of a JSON document, as the specification writes it:
  \<open>candidates[0].content.parts[0].text\<close> is
  \<open>[Key candidates, Index 0, Key content, Key parts, Index 0, Key text]\<close>.
\<close>

datatype path_step = Key string | Index nat

fun json_path :: "json \<Rightarrow> path_step list \<Rightarrow> json option" where
  "json_path j [] = Some j"
| "json_path j (Key k # ps) =
     (case j of
        JObject kvs \<Rightarrow> (case map_of kvs k of Some v \<Rightarrow> json_path v ps | None \<Rightarrow> None)
      | _ \<Rightarrow> None)"
| "json_path j (Index i # ps) =
     (case j of
        JArray xs \<Rightarrow> (if i < length xs then json_path (xs ! i) ps else None)
      | _ \<Rightarrow> None)"

text \<open>The top-level field a provider's response must have, missing or empty.\<close>

definition absent_or_empty :: "json \<Rightarrow> string \<Rightarrow> bool" where
  "absent_or_empty j k =
     (case json_path j [Key k] of
        None \<Rightarrow> True
      | Some v \<Rightarrow> v = JNull \<or> v = JArray [] \<or> v = JObject [])"

definition expected_key :: "provider \<Rightarrow> string" where
  "expected_key p =
     (case p of
        GeminiClient \<Rightarrow> ''candidates''
      | OpenAIClient \<Rightarrow> ''choices''
      | AnthropicClient \<Rightarrow> ''content''
      | CopilotClient \<Rightarrow> ''choices'')"

text \<open>
  The string a request ends with when the worker does not see it cancelled: what
  \<open>_blocking_generate\<close> returned, or what the worker's handlers made of its exception.
\<close>

definition outcome_string :: "string outcome \<Rightarrow> string option" where
  "outcome_string out =
     (case out of
        Returns s \<Rightarrow> Some s
      | Throws x \<Rightarrow> Some (fst (worker_catch (Inl x)))
      | Undefined \<Rightarrow> None)"

text \<open>
  A capitalization of a lower-case word: the same word, letter by letter, with any of
  its letters in upper case.
\<close>

definition to_upper :: "char \<Rightarrow> char" where
  "to_upper ch =
     (let n = (of_char ch :: nat) in if 97 \<le> n \<and> n \<le> 122 then char_of (n - 32) else ch)"

definition is_capitalization :: "string \<Rightarrow> string \<Rightarrow> bool" where
  "is_capitalization p w = list_all2 (\<lambda>a b. a = b \<or> a = to_upper b) p w"

definition is_lower :: "char \<Rightarrow> bool" where
  "is_lower ch = (let n = (of_char ch :: nat) in 97 \<le> n \<and> n \<le> 122)"

text \<open>The payload the client's adapter serialises for the body of its request.\<close>

definition request_payload :: "env \<Rightarrow> ai_client \<Rightarrow> string \<Rightarrow> real \<Rightarrow> json" where
  "request_payload e c prompt_text temp =
     (case kind c of
        GeminiClient \<Rightarrow> gemini_payload prompt_text temp
      | OpenAIClient \<Rightarrow> openai_payload e c prompt_text temp
      | AnthropicClient \<Rightarrow> anthropic_payload e c prompt_text temp
      | CopilotClient \<Rightarrow> copilot_payload e c prompt_text temp)"

section \<open>Example inputs\<close>

text \<open>
  Concrete settings, schedules, response bodies with the JSON values they parse to, and
  collaborators that answer for exactly these, on which the model is evaluated.
\<close>

definition example_settings :: settings_t where
  "example_settings =
     \<lparr> api_provider = ''Gemini'',
       gemini_api_key = ''k-123'', gemini_model_name = ''gemini-pro'',
       openai_api_key = [], openai_model_name = ''gpt-4o'',
       anthropic_api_key = [], anthropic_model_name = ''claude'',
       copilot_proxy_address = ''http://127.0.0.1:4141'', copilot_model_name = ''gpt-4o'',
       temperature = 0 \<rparr>"

definition no_actions :: schedule where
  "no_actions =
     \<lparr> before_connect = [], during_post = [], before_cancel_check = [],
       before_worker_load = [], before_finalization = [] \<rparr>"

definition hello_body :: string where
  \<open>hello_body = ''{"candidates":[{"content":{"parts":[{"text":"hello"}]}}]}''\<close>

definition hello_json :: json where
  "hello_json =
     JObject [(''candidates'',
       JArray [JObject [(''content'',
         JObject [(''parts'', JArray [JObject [(''text'', JString ''hello'')]])])]])]"

definition bad_key_body :: string where
  \<open>bad_key_body = ''{"error":"bad key"}''\<close>

definition bad_key_json :: json where
  "bad_key_json = JObject [(''error'', JString ''bad key'')]"

definition blocked_body :: string where
  \<open>blocked_body = ''{"candidates":[{"finishReason":"SAFETY"}]}''\<close>

definition blocked_json :: json where
  "blocked_json = JObject [(''candidates'', JArray [JObject [(''finishReason'', JString ''SAFETY'')]])]"

definition odd_body :: string where
  \<open>odd_body = ''{"candidates":["x"]}''\<close>

definition odd_json :: json where
  "odd_json = JObject [(''candidates'', JArray [JString ''x''])]"

definition overflow_body :: string where
  "overflow_body = ''1e999''"

definition example_parse :: "string \<Rightarrow> parse_outcome" where
  "example_parse s =
     (if s = hello_body then Parsed hello_json
      else if s = bad_key_body then Parsed bad_key_json
      else if s = blocked_body then Parsed blocked_json
      else if s = odd_body then Parsed odd_json
      else if s = ''{}'' then Parsed (JObject [])
      else if s = overflow_body then
        ParseOther (''[json.exception.out_of_range.406] number overflow parsing '' @ [CHR 0x27]
                    @ ''1e999'' @ [CHR 0x27])
      else ParseError ''[json.exception.parse_error.101] parse error'')"

text \<open>A prompt that is not UTF-8, and the text of the exception \<open>dump()\<close> throws on it.\<close>

definition bad_prompt :: string where
  "bad_prompt = [CHR 0xFF]"

definition bad_prompt_what :: string where
  "bad_prompt_what = ''[json.exception.type_error.316] invalid UTF-8 byte at index 0: 0xFF''"

definition example_payload_text :: string where
  \<open>example_payload_text =
     ''{"contents":[{"parts":[{"text":"Explain this function."}],"role":"user"}],''
     @ ''"generationConfig":{"temperature":0.0}}''\<close>

definition example_dump :: "nat option \<Rightarrow> json \<Rightarrow> string + string" where
  \<open>example_dump indent j =
     (if j = JObject [] then Inr ''{}''
      else if j = bad_key_json then
        (case indent of
           None \<Rightarrow> Inr bad_key_body
         | Some _ \<Rightarrow> Inr (''{'' @ [nl] @ ''  "error": "bad key"'' @ [nl] @ ''}''))
      else if j = gemini_payload ''Explain this function.'' 0 then Inr example_payload_text
      else if j = gemini_payload bad_prompt 0 then Inl bad_prompt_what
      else Inr ''null'')\<close>

definition failed_context :: json where
  "failed_context =
     JObject [(''ok'', JBool False), (''message'', JString ''Failed to decompile function.'')]"

definition example_env :: "post_outcome \<Rightarrow> env" where
  "example_env answer =
     \<lparr> json_parse = example_parse, json_dump = example_dump,
       http_post = (\<lambda>rq. answer), register_timer = Some 7,
       BASE_PROMPT = ''You are a reverse engineering assistant.'',
       get_context_for_prompt = (\<lambda>ea include_struct_context max_len. failed_context),
       format_prompt = (\<lambda>template context. ''Explain this function.''),
       get_func_name = (\<lambda>ea. ''sub_401000'') \<rparr>"

definition quiet_callback :: callback_t where
  "quiet_callback = Some (\<lambda>s. None)"

section \<open>Facts about host actions, the transport and the worker\<close>

lemma host_action_quiet: "\<not> cancels a \<Longrightarrow> host_action a c = (c, [])"
  by (cases a) (auto simp: cancels_def host_action_def timer_cb_def)

lemma host_actions_quiet: "list_all (\<lambda>a. \<not> cancels a) hs \<Longrightarrow> host_actions hs c = (c, [])"
  by (induction hs arbitrary: c) (auto simp: host_action_quiet)

lemma host_action_fields:
  "kind (fst (host_action a c)) = kind c"
  "settings (fst (host_action a c)) = settings c"
  "model_name (fst (host_action a c)) = model_name c"
  "task_done (fst (host_action a c)) = task_done c"
  "http_client (fst (host_action a c)) = http_client c"
  "worker_joinable (fst (host_action a c)) = worker_joinable c"
  by (cases a; simp add: host_action_def timer_cb_def cancel_current_request_def split: prod.splits)+

lemma host_actions_fields:
  "kind (fst (host_actions hs c)) = kind c"
  "settings (fst (host_actions hs c)) = settings c"
  "model_name (fst (host_actions hs c)) = model_name c"
  "task_done (fst (host_actions hs c)) = task_done c"
  "http_client (fst (host_actions hs c)) = http_client c"
  "worker_joinable (fst (host_actions hs c)) = worker_joinable c"
  by (induction hs arbitrary: c; simp add: split_beta host_action_fields)+

lemma host_action_cancelled_mono: "cancelled c \<Longrightarrow> cancelled (fst (host_action a c))"
  by (cases a) (auto simp: host_action_def timer_cb_def cancel_current_request_def split: prod.splits)

lemma host_actions_cancelled_mono: "cancelled c \<Longrightarrow> cancelled (fst (host_actions hs c))"
  by (induction hs arbitrary: c) (auto simp: split_beta host_action_cancelled_mono)

lemma host_action_cancels: "cancels a \<Longrightarrow> \<not> task_done c \<Longrightarrow> cancelled (fst (host_action a c))"
  by (cases a) (auto simp: cancels_def host_action_def timer_cb_def cancel_current_request_def split: prod.splits)

lemma host_actions_cancels:
  "list_ex cancels hs \<Longrightarrow> \<not> task_done c \<Longrightarrow> cancelled (fst (host_actions hs c))"
proof (induction hs arbitrary: c)
  case Nil
  then show ?case by simp
next
  case (Cons a hs)
  show ?case
  proof (cases "cancels a")
    case True
    with Cons.prems have "cancelled (fst (host_action a c))" by (simp add: host_action_cancels)
    then show ?thesis by (simp add: split_beta host_actions_cancelled_mono)
  next
    case False
    with Cons.prems have "list_ex cancels hs" by simp
    moreover have "\<not> task_done (fst (host_action a c))" using Cons.prems by (simp add: host_action_fields)
    ultimately show ?thesis using Cons.IH by (simp add: split_beta)
  qed
qed

lemma host_action_token: "\<not> validity_token c \<Longrightarrow> \<not> validity_token (fst (host_action a c))"
  by (cases a) (auto simp: host_action_def timer_cb_def cancel_current_request_def split: prod.splits)

lemma host_actions_token: "\<not> validity_token c \<Longrightarrow> \<not> validity_token (fst (host_actions hs c))"
  by (induction hs arbitrary: c) (auto simp: split_beta host_action_token)

lemma host_actions_destroy:
  "DestroyClient \<in> set hs \<Longrightarrow> \<not> validity_token (fst (host_actions hs c))"
proof (induction hs arbitrary: c)
  case Nil
  then show ?case by simp
next
  case (Cons a hs)
  show ?case
  proof (cases "a = DestroyClient")
    case True
    then have "\<not> validity_token (fst (host_action a c))"
      by (simp add: host_action_def cancel_current_request_def)
    then show ?thesis by (simp add: split_beta host_actions_token)
  next
    case False
    with Cons.prems have "DestroyClient \<in> set hs" by simp
    then show ?thesis using Cons.IH by (simp add: split_beta)
  qed
qed

lemma host_actions_token_kept:
  "DestroyClient \<notin> set hs \<Longrightarrow> validity_token (fst (host_actions hs c)) = validity_token c"
proof (induction hs arbitrary: c)
  case Nil
  then show ?case by simp
next
  case (Cons a hs)
  then have "a \<noteq> DestroyClient" and "DestroyClient \<notin> set hs" by auto
  moreover from \<open>a \<noteq> DestroyClient\<close>
  have "validity_token (fst (host_action a c)) = validity_token c"
    by (cases a) (auto simp: host_action_def timer_cb_def cancel_current_request_def
                       split: prod.splits)
  ultimately show ?case using Cons.IH by (simp add: split_beta)
qed

lemma host_actions_no_callback: "filter is_callback (snd (host_actions hs c)) = []"
proof (induction hs arbitrary: c)
  case Nil
  then show ?case by simp
next
  case (Cons a hs)
  have "filter is_callback (snd (host_action a c)) = []"
    by (cases a) (auto simp: host_action_def timer_cb_def cancel_current_request_def is_callback_def split: prod.splits)
  then show ?case using Cons.IH by (simp add: split_beta)
qed

lemma post_uncancelled:
  assumes "\<not> cancelled c"
    and "list_all (\<lambda>a. \<not> cancels a) (during_post sch @ before_cancel_check sch)"
    and "http_post e rq = PostResponse status body"
  shows "http_post_request e sch c rq parser =
     (if status \<noteq> 200 then
        (case error_details e body of
           Returns details \<Rightarrow>
             (c\<lparr>http_client := False\<rparr>,
              [HttpPost rq, api_error_msg (req_host rq) status details],
              Returns (''Error: API returned status '' @ to_string status))
         | Throws (StdException w) \<Rightarrow>
             (c\<lparr>http_client := False\<rparr>, HttpPost rq # fst (api_call_failed (req_host rq) w),
              Returns (snd (api_call_failed (req_host rq) w)))
         | Throws OtherException \<Rightarrow> (c\<lparr>http_client := False\<rparr>, [HttpPost rq], Throws OtherException)
         | Undefined \<Rightarrow> (c\<lparr>http_client := False\<rparr>, [HttpPost rq], Undefined))
      else (case json_parse e body of
              ParseError w \<Rightarrow>
                (c\<lparr>http_client := False\<rparr>, HttpPost rq # fst (api_call_failed (req_host rq) w),
                 Returns (snd (api_call_failed (req_host rq) w)))
            | ParseOther w \<Rightarrow>
                (c\<lparr>http_client := False\<rparr>, HttpPost rq # fst (api_call_failed (req_host rq) w),
                 Returns (snd (api_call_failed (req_host rq) w)))
            | Parsed jres \<Rightarrow>
                (case parser jres of
                   (pev, Throws (StdException w)) \<Rightarrow>
                     (c\<lparr>http_client := False\<rparr>,
                      HttpPost rq # pev @ fst (api_call_failed (req_host rq) w),
                      Returns (snd (api_call_failed (req_host rq) w)))
                 | (pev, out) \<Rightarrow> (c\<lparr>http_client := False\<rparr>, HttpPost rq # pev, out))))"
  using assms
  by (simp add: http_post_request_def Let_def host_actions_quiet split_beta
           split: parse_outcome.splits prod.splits outcome.splits exn.splits)

lemma has_nonempty_iff: "has_nonempty j k = (\<not> absent_or_empty j k)"
  by (auto simp: has_nonempty_def absent_or_empty_def json_contains_def const_at_key_def json_empty_def
           split: json.splits option.splits)

lemma gemini_parser_text:
  assumes "json_path jres [Key ''candidates'', Index 0, Key ''content'', Key ''parts'', Index 0, Key ''text'']
             = Some (JString txt)"
  shows "gemini_parser e jres = ([], Returns txt)"
  using assms
  by (auto simp: gemini_parser_def has_nonempty_def json_contains_def const_at_key_def
        const_at_index_def json_empty_def bind_def get_string_def
        split: json.splits option.splits if_splits)

lemma post_cases:
  obtains (threw_std) w where "http_post e rq = PostThrew (StdException w)"
  | (threw_other) "http_post e rq = PostThrew OtherException"
  | (failed) err where "http_post e rq = PostFailed err"
  | (response) status body where "http_post e rq = PostResponse status body"
proof (cases "http_post e rq")
  case (PostThrew x)
  then show ?thesis using threw_std threw_other by (cases x) auto
next
  case (PostFailed err)
  then show ?thesis using failed by blast
next
  case (PostResponse status body)
  then show ?thesis using response by blast
qed

lemma post_when_cancelled:
  assumes "cancelled (fst (host_actions (during_post sch) (c\<lparr>http_client := True\<rparr>)))"
  shows "cancelled (fst (http_post_request e sch c rq parser))"
    and "snd (snd (http_post_request e sch c rq parser)) \<noteq> Undefined"
    and "filter is_callback (fst (snd (http_post_request e sch c rq parser))) = []"
    and "\<forall>x. http_post e rq \<noteq> PostThrew x \<Longrightarrow>
           snd (snd (http_post_request e sch c rq parser)) = Returns ''Error: Operation cancelled.''"
proof -
  let ?c2 = "fst (host_actions (during_post sch) (c\<lparr>http_client := True\<rparr>))"
  let ?c4 = "fst (host_actions (before_cancel_check sch) (?c2\<lparr>http_client := False\<rparr>))"
  have c4: "cancelled ?c4" using assms by (simp add: host_actions_cancelled_mono)
  show "cancelled (fst (http_post_request e sch c rq parser))"
    using assms c4
    by (cases rule: post_cases[of e rq])
       (simp_all add: http_post_request_def Let_def split_beta api_call_failed_def)
  show "snd (snd (http_post_request e sch c rq parser)) \<noteq> Undefined"
    using assms c4
    by (cases rule: post_cases[of e rq])
       (simp_all add: http_post_request_def Let_def split_beta api_call_failed_def)
  show "filter is_callback (fst (snd (http_post_request e sch c rq parser))) = []"
    using assms c4
    by (cases rule: post_cases[of e rq])
       (simp_all add: http_post_request_def Let_def split_beta api_call_failed_def
          host_actions_no_callback is_callback_def)
  show "snd (snd (http_post_request e sch c rq parser)) = Returns ''Error: Operation cancelled.''"
    if "\<forall>x. http_post e rq \<noteq> PostThrew x"
    using assms c4 that
    by (cases rule: post_cases[of e rq])
       (simp_all add: http_post_request_def Let_def split_beta)
qed

lemma parser_events:
  "filter is_callback (fst (gemini_parser e j)) = []"
  "filter is_callback (fst (openai_parser e j)) = []"
  "filter is_callback (fst (anthropic_parser e j)) = []"
  "filter is_callback (fst (copilot_parser e j)) = []"
  by (simp_all add: gemini_parser_def openai_parser_def anthropic_parser_def copilot_parser_def
        invalid_response_def is_callback_def split: sum.splits)

lemma post_no_callback:
  assumes "\<And>j. filter is_callback (fst (parser j)) = []"
  shows "filter is_callback (fst (snd (http_post_request e sch c rq parser))) = []"
proof (cases rule: post_cases[of e rq])
  case (response status body)
  show ?thesis
  proof (cases "status = 200")
    case False
    with response show ?thesis
      by (simp add: http_post_request_def Let_def split_beta api_call_failed_def
          host_actions_no_callback is_callback_def api_error_msg_def
          split: outcome.splits exn.splits)
  next
    case True
    show ?thesis
    proof (cases "json_parse e body")
      case (Parsed jres)
      obtain pev out where p: "parser jres = (pev, out)" by (cases "parser jres")
      with assms[of jres] have pev: "filter is_callback pev = []" by simp
      show ?thesis using response True Parsed p pev
        by (simp add: http_post_request_def Let_def split_beta api_call_failed_def
            host_actions_no_callback is_callback_def
            split: outcome.splits exn.splits)
    next
      case (ParseError w)
      then show ?thesis using response True
        by (simp add: http_post_request_def Let_def split_beta api_call_failed_def
            host_actions_no_callback is_callback_def)
    next
      case (ParseOther w)
      then show ?thesis using response True
        by (simp add: http_post_request_def Let_def split_beta api_call_failed_def
            host_actions_no_callback is_callback_def)
    qed
  qed
qed (simp_all add: http_post_request_def Let_def split_beta api_call_failed_def
          host_actions_no_callback is_callback_def split: http_error.splits)

lemma blocking_generate_no_callback:
  "filter is_callback (fst (snd (blocking_generate e sch c p t))) = []"
  by (cases "kind c")
     (simp_all add: blocking_generate_def post_no_callback parser_events split: sum.splits)

lemma execute_callbacks:
  "filter is_callback (execute alive req) =
     (if alive \<and> \<not> was_cancelled req \<and> callback req \<noteq> None
      then [CallbackInvoked (result req)] else [])"
  by (auto simp: execute_def is_callback_def split: option.splits exn.splits)

lemma worker_catch_no_callback: "filter is_callback (snd (worker_catch r)) = []"
  by (auto simp: worker_catch_def is_callback_def Let_def split: sum.splits exn.splits)

lemma worker_catch_Inr: "worker_catch (Inr s) = (s, [])"
  by (simp add: worker_catch_def)

lemma worker_func_Some:
  assumes "worker_func e sch c req p t = Some (c', req', ev)"
  defines "c0 \<equiv> fst (host_actions (before_connect sch) c)"
  defines "bg \<equiv> blocking_generate e sch c0 p t"
  shows "c' = (fst (host_actions (before_worker_load sch) (fst bg)))\<lparr>task_done := True\<rparr>"
    and "was_cancelled req' = cancelled c'"
    and "callback req' = callback req"
    and "timer req' = timer req"
    and "filter is_callback ev = []"
    and "snd (snd bg) \<noteq> Undefined"
    and "result req' = (if cancelled c' then result req else the (outcome_string (snd (snd bg))))"
    and "validity_token c0"
  using assms(1) unfolding c0_def bg_def
  by (auto simp: worker_func_def Let_def split_beta outcome_string_def host_actions_no_callback
        blocking_generate_no_callback worker_catch_no_callback is_callback_def worker_catch_Inr
        split: outcome.splits if_splits)

lemma worker_func_defined:
  assumes "snd (snd (blocking_generate e sch (fst (host_actions (before_connect sch) c)) p t)) \<noteq> Undefined"
    and "validity_token (fst (host_actions (before_connect sch) c))"
  shows "\<exists>r. worker_func e sch c req p t = Some r"
  using assms by (auto simp: worker_func_def Let_def split_beta split: outcome.splits)

lemma generate_facts:
  "\<not> cancelled (fst (generate e c p cb t))"
  "\<not> task_done (fst (generate e c p cb t))"
  "kind (fst (generate e c p cb t)) = kind c"
  "settings (fst (generate e c p cb t)) = settings c"
  "validity_token (fst (generate e c p cb t)) = validity_token c"
  "fst (snd (generate e c p cb t)) = new_request cb (register_timer e)"
  "filter is_callback (snd (snd (generate e c p cb t))) = []"
  by (simp_all add: generate_def Let_def is_callback_def)

lemma run_request_Some:
  assumes "run_request e sch c p cb t = Some tr"
  defines "g \<equiv> generate e c p cb t"
  shows "\<exists>c2 ev. worker_func e sch (fst g) (fst (snd g)) p t = Some (c2, handed tr, ev)
            \<and> started tr = snd (snd g) \<and> worked tr = ev
            \<and> waited tr = snd (host_actions (before_finalization sch) c2)
            \<and> owner tr = fst (host_actions (before_finalization sch) c2)
            \<and> finalized tr = execute (validity_token (owner tr)) (handed tr)"
  using assms(1) unfolding g_def
  by (auto simp: run_request_def Let_def split_beta split: option.splits)

lemma parser_absent:
  "absent_or_empty jres ''candidates'' \<Longrightarrow> gemini_parser e jres = invalid_response e ''Gemini'' jres"
  "absent_or_empty jres ''choices'' \<Longrightarrow> openai_parser e jres = invalid_response e ''OpenAI'' jres"
  "absent_or_empty jres ''content'' \<Longrightarrow> anthropic_parser e jres = invalid_response e ''Anthropic'' jres"
  "absent_or_empty jres ''choices'' \<Longrightarrow> copilot_parser e jres = invalid_response e ''Copilot'' jres"
  by (simp_all add: gemini_parser_def openai_parser_def anthropic_parser_def copilot_parser_def
        has_nonempty_iff)

lemma post_token:
  "\<not> validity_token c \<Longrightarrow> \<not> validity_token (fst (http_post_request e sch c rq parser))"
proof -
  assume a: "\<not> validity_token c"
  let ?c2 = "fst (host_actions (during_post sch) (c\<lparr>http_client := True\<rparr>))"
  have c2: "\<not> validity_token ?c2" using a by (simp add: host_actions_token)
  then have c4: "\<not> validity_token (fst (host_actions (before_cancel_check sch) (?c2\<lparr>http_client := False\<rparr>)))"
    by (simp add: host_actions_token)
  show ?thesis
  proof (cases rule: post_cases[of e rq])
    case (response status body)
    then show ?thesis using c4
      by (simp add: http_post_request_def Let_def split_beta api_call_failed_def
            split: parse_outcome.splits outcome.splits exn.splits)
  qed (use c2 c4 in \<open>simp_all add: http_post_request_def Let_def split_beta api_call_failed_def
            split: http_error.splits\<close>)
qed

lemma blocking_generate_token:
  "\<not> validity_token c \<Longrightarrow> \<not> validity_token (fst (blocking_generate e sch c p t))"
  by (cases "kind c") (simp_all add: blocking_generate_def post_token split: sum.splits)

lemma blocking_generate_posts:
  assumes "is_available c" and "json_dump e None (request_payload e c p t) = Inr body"
  shows "\<exists>rq parser. blocking_generate e sch c p t = http_post_request e sch c rq parser"
  using assms
  by (cases "kind c") (auto simp: blocking_generate_def request_payload_def)

lemma blocking_generate_when_cancelled:
  assumes "is_available c" and "json_dump e None (request_payload e c p t) = Inr body"
    and "cancelled (fst (host_actions (during_post sch) (c\<lparr>http_client := True\<rparr>)))"
  shows "cancelled (fst (blocking_generate e sch c p t))"
    and "snd (snd (blocking_generate e sch c p t)) \<noteq> Undefined"
    and "filter is_callback (fst (snd (blocking_generate e sch c p t))) = []"
    and "\<forall>rq x. http_post e rq \<noteq> PostThrew x \<Longrightarrow>
           snd (snd (blocking_generate e sch c p t)) = Returns ''Error: Operation cancelled.''"
proof -
  from blocking_generate_posts [OF assms(1,2)] obtain rq parser where
    bg: "blocking_generate e sch c p t = http_post_request e sch c rq parser" by blast
  show "cancelled (fst (blocking_generate e sch c p t))"
    unfolding bg by (rule post_when_cancelled(1) [OF assms(3)])
  show "snd (snd (blocking_generate e sch c p t)) \<noteq> Undefined"
    unfolding bg by (rule post_when_cancelled(2) [OF assms(3)])
  show "filter is_callback (fst (snd (blocking_generate e sch c p t))) = []"
    unfolding bg by (rule post_when_cancelled(3) [OF assms(3)])
  show "snd (snd (blocking_generate e sch c p t)) = Returns ''Error: Operation cancelled.''"
    if "\<forall>rq x. http_post e rq \<noteq> PostThrew x"
    unfolding bg using that by (intro post_when_cancelled(4) [OF assms(3)]) simp
qed

lemma worker_func_token:
  assumes "worker_func e sch c req p t = Some (c', req', ev)"
    and "\<not> validity_token c \<or> DestroyClient \<in> set (before_connect sch @ before_worker_load sch)"
  shows "\<not> validity_token c'"
proof -
  let ?c0 = "fst (host_actions (before_connect sch) c)"
  let ?bg = "blocking_generate e sch ?c0 p t"
  let ?c2 = "fst (host_actions (before_worker_load sch) (fst ?bg))"
  have c': "c' = ?c2\<lparr>task_done := True\<rparr>" using worker_func_Some(1) [OF assms(1)] .
  from assms(2) consider "\<not> validity_token c" | "DestroyClient \<in> set (before_connect sch)"
    | "DestroyClient \<in> set (before_worker_load sch)" by auto
  then have "\<not> validity_token ?c2"
  proof cases
    case 1
    then show ?thesis by (simp add: host_actions_token blocking_generate_token)
  next
    case 2
    then have "\<not> validity_token ?c0" by (rule host_actions_destroy)
    then show ?thesis by (simp add: host_actions_token blocking_generate_token)
  next
    case 3
    then show ?thesis by (rule host_actions_destroy)
  qed
  then show ?thesis using c' by simp
qed

lemma example_parse_simps:
  "json_parse (example_env x) hello_body = Parsed hello_json"
  "json_parse (example_env x) odd_body = Parsed odd_json"
  "json_parse (example_env x) blocked_body = Parsed blocked_json"
  "json_parse (example_env x) bad_key_body = Parsed bad_key_json"
  "json_parse (example_env x) ''{}'' = Parsed (JObject [])"
  "json_parse (example_env x) ''<html>'' = ParseError ''[json.exception.parse_error.101] parse error''"
  "json_parse (example_env x) overflow_body =
     ParseOther (''[json.exception.out_of_range.406] number overflow parsing '' @ [CHR 0x27]
                 @ ''1e999'' @ [CHR 0x27])"
  by (simp_all add: example_env_def example_parse_def hello_body_def bad_key_body_def
        blocked_body_def odd_body_def overflow_body_def)

lemma example_dump_simps:
  "json_dump (example_env x) None (gemini_payload ''Explain this function.'' 0) = Inr example_payload_text"
  "json_dump (example_env x) None (gemini_payload bad_prompt 0) = Inl bad_prompt_what"
  "json_dump (example_env x) None (JObject []) = Inr ''{}''"
  by (simp_all add: example_env_def example_dump_def gemini_payload_def bad_key_json_def
        bad_prompt_def)

lemma example_client_simps:
  "kind (new_client k example_settings) = k"
  "\<not> cancelled (new_client k example_settings)"
  "\<not> task_done (new_client k example_settings)"
  "\<not> worker_joinable (new_client k example_settings)"
  "validity_token (new_client k example_settings)"
  "is_available (new_client GeminiClient example_settings)"
  "\<not> is_available (new_client OpenAIClient example_settings)"
  by (simp_all add: new_client_def is_available_def example_settings_def)

lemma example_run_hello:
  "\<exists>tr. run_request (example_env (PostResponse 200 hello_body)) no_actions
           (new_client GeminiClient example_settings) ''Explain this function.'' quiet_callback 0
         = Some tr
       \<and> started tr = [RegisterTimer 100, SpawnWorker ''Explain this function.'' 0]
       \<and> filter is_callback (worked tr) = [] \<and> waited tr = []
       \<and> finalized tr = [UnregisterTimer 7, CallbackInvoked ''hello'', DeleteRequest]
       \<and> validity_token (owner tr) \<and> \<not> was_cancelled (handed tr)
       \<and> result (handed tr) = ''hello''"
proof -
  let ?e = "example_env (PostResponse 200 hello_body)"
  let ?c = "new_client GeminiClient example_settings"
  let ?c1 = "?c\<lparr>cancelled := False, task_done := False, worker_joinable := True\<rparr>"
  have g: "generate ?e ?c ''Explain this function.'' quiet_callback 0 =
             (?c1, new_request quiet_callback (Some 7),
              [RegisterTimer 100, SpawnWorker ''Explain this function.'' 0])"
    by (simp add: generate_def Let_def example_client_simps example_env_def)
  have q: "list_all (\<lambda>a. \<not> cancels a) (during_post no_actions @ before_cancel_check no_actions)"
    by (simp add: no_actions_def)
  have nc: "\<not> cancelled ?c1" by simp
  have av: "is_available ?c1" "kind ?c1 = GeminiClient"
    by (simp_all add: is_available_def new_client_def example_settings_def)
  have post: "http_post ?e rq = PostResponse 200 hello_body" for rq by (simp add: example_env_def)
  have gp: "gemini_parser ?e hello_json = ([], Returns ''hello'')"
    by (rule gemini_parser_text) (simp add: hello_json_def)
  have bg: "blocking_generate ?e no_actions ?c1 ''Explain this function.'' 0 =
              (?c1\<lparr>http_client := False\<rparr>,
               [HttpPost (gemini_request ?c1 example_payload_text)], Returns ''hello'')"
    by (simp add: blocking_generate_def av example_dump_simps post_uncancelled [OF nc q post]
          example_parse_simps gp)
  have na: "before_connect no_actions = []" "before_worker_load no_actions = []"
           "before_finalization no_actions = []"
    by (simp_all add: no_actions_def)
  have w: "worker_func ?e no_actions ?c1 (new_request quiet_callback (Some 7))
             ''Explain this function.'' 0 =
           Some (?c1\<lparr>http_client := False, task_done := True\<rparr>,
                 \<lparr> result = ''hello'', was_cancelled = False, callback = quiet_callback,
                   timer = Some 7 \<rparr>,
                 [HttpPost (gemini_request ?c1 example_payload_text), ExecuteSync])"
    by (simp add: worker_func_def Let_def na bg worker_catch_Inr new_request_def
          example_client_simps)
  have run: "run_request ?e no_actions ?c ''Explain this function.'' quiet_callback 0 =
      Some \<lparr> started = [RegisterTimer 100, SpawnWorker ''Explain this function.'' 0],
             worked = [HttpPost (gemini_request ?c1 example_payload_text), ExecuteSync],
             waited = [],
             finalized = execute True \<lparr> result = ''hello'', was_cancelled = False,
                                        callback = quiet_callback, timer = Some 7 \<rparr>,
             handed = \<lparr> result = ''hello'', was_cancelled = False, callback = quiet_callback,
                        timer = Some 7 \<rparr>,
             owner = ?c1\<lparr>http_client := False, task_done := True\<rparr> \<rparr>"
    by (simp add: run_request_def Let_def g w na example_client_simps)
  show ?thesis
    unfolding run
    by (simp add: execute_def quiet_callback_def is_callback_def example_client_simps)
qed

lemma example_run_destroyed:
  "\<exists>tr. run_request (example_env (PostResponse 200 hello_body))
           (no_actions\<lparr>before_finalization := [DestroyClient]\<rparr>)
           (new_client GeminiClient example_settings) ''Explain this function.'' quiet_callback 0
         = Some tr
       \<and> finalized tr = [DeleteRequest] \<and> \<not> validity_token (owner tr)
       \<and> \<not> was_cancelled (handed tr)"
proof -
  let ?e = "example_env (PostResponse 200 hello_body)"
  let ?sch = "no_actions\<lparr>before_finalization := [DestroyClient]\<rparr>"
  let ?c = "new_client GeminiClient example_settings"
  let ?c1 = "?c\<lparr>cancelled := False, task_done := False, worker_joinable := True\<rparr>"
  have g: "generate ?e ?c ''Explain this function.'' quiet_callback 0 =
             (?c1, new_request quiet_callback (Some 7),
              [RegisterTimer 100, SpawnWorker ''Explain this function.'' 0])"
    by (simp add: generate_def Let_def example_client_simps example_env_def)
  have q: "list_all (\<lambda>a. \<not> cancels a) (during_post ?sch @ before_cancel_check ?sch)"
    by (simp add: no_actions_def)
  have nc: "\<not> cancelled ?c1" by simp
  have av: "is_available ?c1" "kind ?c1 = GeminiClient"
    by (simp_all add: is_available_def new_client_def example_settings_def)
  have post: "http_post ?e rq = PostResponse 200 hello_body" for rq by (simp add: example_env_def)
  have gp: "gemini_parser ?e hello_json = ([], Returns ''hello'')"
    by (rule gemini_parser_text) (simp add: hello_json_def)
  have bg: "blocking_generate ?e ?sch ?c1 ''Explain this function.'' 0 =
              (?c1\<lparr>http_client := False\<rparr>,
               [HttpPost (gemini_request ?c1 example_payload_text)], Returns ''hello'')"
    by (simp add: blocking_generate_def av example_dump_simps post_uncancelled [OF nc q post]
          example_parse_simps gp)
  have na: "before_connect ?sch = []" "before_worker_load ?sch = []"
           "before_finalization ?sch = [DestroyClient]"
    by (simp_all add: no_actions_def)
  have w: "worker_func ?e ?sch ?c1 (new_request quiet_callback (Some 7))
             ''Explain this function.'' 0 =
           Some (?c1\<lparr>http_client := False, task_done := True\<rparr>,
                 \<lparr> result = ''hello'', was_cancelled = False, callback = quiet_callback,
                   timer = Some 7 \<rparr>,
                 [HttpPost (gemini_request ?c1 example_payload_text), ExecuteSync])"
    by (simp add: worker_func_def Let_def na bg worker_catch_Inr new_request_def
          example_client_simps)
  have run: "run_request ?e ?sch ?c ''Explain this function.'' quiet_callback 0 =
      Some \<lparr> started = [RegisterTimer 100, SpawnWorker ''Explain this function.'' 0],
             worked = [HttpPost (gemini_request ?c1 example_payload_text), ExecuteSync],
             waited = [],
             finalized = execute False \<lparr> result = ''hello'', was_cancelled = False,
                                        callback = quiet_callback, timer = Some 7 \<rparr>,
             handed = \<lparr> result = ''hello'', was_cancelled = False, callback = quiet_callback,
                        timer = Some 7 \<rparr>,
             owner = ?c1\<lparr>http_client := False, task_done := True, cancelled := True,
                         validity_token := False\<rparr> \<rparr>"
    by (simp add: run_request_def Let_def g w na example_client_simps host_action_def
          cancel_current_request_def)
  show ?thesis
    unfolding run by (simp add: execute_def)
qed

lemma example_run_cancelled:
  "\<exists>tr. run_request (example_env (PostFailed Canceled))
           (no_actions\<lparr>during_post := [CancelCurrentRequest]\<rparr>)
           (new_client GeminiClient example_settings) ''Explain this function.'' quiet_callback 0
         = Some tr
       \<and> finalized tr = [UnregisterTimer 7,
                         Msg (''AI Assistant: Operation cancelled by user.'' @ [nl]), DeleteRequest]
       \<and> validity_token (owner tr) \<and> was_cancelled (handed tr)
       \<and> HttpStop \<in> set (worked tr)"
proof -
  let ?e = "example_env (PostFailed Canceled)"
  let ?sch = "no_actions\<lparr>during_post := [CancelCurrentRequest]\<rparr>"
  let ?c = "new_client GeminiClient example_settings"
  let ?c1 = "?c\<lparr>cancelled := False, task_done := False, worker_joinable := True\<rparr>"
  let ?rq = "gemini_request ?c1 example_payload_text"
  have g: "generate ?e ?c ''Explain this function.'' quiet_callback 0 =
             (?c1, new_request quiet_callback (Some 7),
              [RegisterTimer 100, SpawnWorker ''Explain this function.'' 0])"
    by (simp add: generate_def Let_def example_client_simps example_env_def)
  have av: "is_available ?c1" "kind ?c1 = GeminiClient"
    by (simp_all add: is_available_def new_client_def example_settings_def)
  have post: "http_post ?e rq = PostFailed Canceled" for rq by (simp add: example_env_def)
  have na: "before_connect ?sch = []" "before_worker_load ?sch = []"
           "before_finalization ?sch = []" "during_post ?sch = [CancelCurrentRequest]"
           "before_cancel_check ?sch = []"
    by (simp_all add: no_actions_def)
  have bg: "blocking_generate ?e ?sch ?c1 ''Explain this function.'' 0 =
              (?c1\<lparr>cancelled := True, http_client := False\<rparr>,
               [HttpPost ?rq, HttpStop], Returns ''Error: Operation cancelled.'')"
    by (simp add: blocking_generate_def av example_dump_simps http_post_request_def Let_def post na
          host_action_def cancel_current_request_def)
  have w: "worker_func ?e ?sch ?c1 (new_request quiet_callback (Some 7))
             ''Explain this function.'' 0 =
           Some (?c1\<lparr>cancelled := True, http_client := False, task_done := True\<rparr>,
                 \<lparr> result = [], was_cancelled = True, callback = quiet_callback,
                   timer = Some 7 \<rparr>,
                 [HttpPost ?rq, HttpStop, ExecuteSync])"
    by (simp add: worker_func_def Let_def na bg worker_catch_Inr new_request_def
          example_client_simps)
  have run: "run_request ?e ?sch ?c ''Explain this function.'' quiet_callback 0 =
      Some \<lparr> started = [RegisterTimer 100, SpawnWorker ''Explain this function.'' 0],
             worked = [HttpPost ?rq, HttpStop, ExecuteSync],
             waited = [],
             finalized = execute True \<lparr> result = [], was_cancelled = True,
                                        callback = quiet_callback, timer = Some 7 \<rparr>,
             handed = \<lparr> result = [], was_cancelled = True, callback = quiet_callback,
                        timer = Some 7 \<rparr>,
             owner = ?c1\<lparr>cancelled := True, http_client := False, task_done := True\<rparr> \<rparr>"
    by (simp add: run_request_def Let_def g w na example_client_simps)
  show ?thesis
    unfolding run by (simp add: execute_def example_client_simps)
qed

lemma example_run_not_configured:
  "\<exists>tr. run_request (example_env (PostFailed Canceled)) no_actions
           (new_client OpenAIClient example_settings) ''Explain this function.'' quiet_callback 0
         = Some tr
       \<and> finalized tr =
           [UnregisterTimer 7,
            CallbackInvoked ''Error: OpenAI client is not initialized. Check API key.'',
            DeleteRequest]
       \<and> validity_token (owner tr) \<and> \<not> was_cancelled (handed tr)"
proof -
  let ?e = "example_env (PostFailed Canceled)"
  let ?c = "new_client OpenAIClient example_settings"
  let ?c1 = "?c\<lparr>cancelled := False, task_done := False, worker_joinable := True\<rparr>"
  let ?r = "''Error: OpenAI client is not initialized. Check API key.''"
  have g: "generate ?e ?c ''Explain this function.'' quiet_callback 0 =
             (?c1, new_request quiet_callback (Some 7),
              [RegisterTimer 100, SpawnWorker ''Explain this function.'' 0])"
    by (simp add: generate_def Let_def example_client_simps example_env_def)
  have av: "\<not> is_available ?c1" "kind ?c1 = OpenAIClient"
    by (simp_all add: is_available_def new_client_def example_settings_def)
  have na: "before_connect no_actions = []" "before_worker_load no_actions = []"
           "before_finalization no_actions = []"
    by (simp_all add: no_actions_def)
  have bg: "blocking_generate ?e no_actions ?c1 ''Explain this function.'' 0 =
              (?c1, [], Returns ?r)"
    by (simp add: blocking_generate_def av)
  have w: "worker_func ?e no_actions ?c1 (new_request quiet_callback (Some 7))
             ''Explain this function.'' 0 =
           Some (?c1\<lparr>task_done := True\<rparr>,
                 \<lparr> result = ?r, was_cancelled = False, callback = quiet_callback,
                   timer = Some 7 \<rparr>,
                 [ExecuteSync])"
    by (simp add: worker_func_def Let_def na bg worker_catch_Inr new_request_def
          example_client_simps)
  have run: "run_request ?e no_actions ?c ''Explain this function.'' quiet_callback 0 =
      Some \<lparr> started = [RegisterTimer 100, SpawnWorker ''Explain this function.'' 0],
             worked = [ExecuteSync],
             waited = [],
             finalized = execute True \<lparr> result = ?r, was_cancelled = False,
                                        callback = quiet_callback, timer = Some 7 \<rparr>,
             handed = \<lparr> result = ?r, was_cancelled = False, callback = quiet_callback,
                        timer = Some 7 \<rparr>,
             owner = ?c1\<lparr>task_done := True\<rparr> \<rparr>"
    by (simp add: run_request_def Let_def g w na example_client_simps)
  show ?thesis
    unfolding run by (simp add: execute_def quiet_callback_def example_client_simps)
qed

lemma to_lower_of_letter:
  assumes "is_lower b" and "a = b \<or> a = to_upper b"
  shows "to_lower a = b" and "a \<noteq> CHR 0x00"
proof -
  let ?n = "of_char b :: nat"
  have n: "97 \<le> ?n" "?n \<le> 122" using assms(1) by (simp_all add: is_lower_def Let_def)
  have up: "of_char (to_upper b) = ?n - 32"
    using n by (simp add: to_upper_def Let_def)
  have rt: "char_of (?n - 32 + 32) = b"
    using n by simp
  show "to_lower a = b"
  proof (cases "a = b")
    case True
    then show ?thesis using n by (simp add: to_lower_def is_upper_def Let_def)
  next
    case False
    with assms(2) have a: "a = to_upper b" by simp
    have rng: "65 \<le> ?n - 32" "?n - 32 \<le> 90" using n by arith+
    have "is_upper (to_upper b)" using rng by (simp add: is_upper_def Let_def up)
    then have "to_lower (to_upper b) = char_of (?n - 32 + 32)"
      by (simp add: to_lower_def up)
    then show ?thesis using a rt by simp
  qed
  have "of_char a \<noteq> (0::nat)"
    using assms(2) n up by auto
  then show "a \<noteq> CHR 0x00" by auto
qed

lemma capitalization_lowered:
  assumes "list_all2 (\<lambda>a b. a = b \<or> a = to_upper b) p w" and "list_all is_lower w"
  shows "qstrlwr (c_str p) = w"
  using assms
proof (induction p w rule: list_all2_induct)
  case Nil
  then show ?case by (simp add: qstrlwr_def c_str_def)
next
  case (Cons a p b w)
  from Cons.prems have lb: "is_lower b" and lw: "list_all is_lower w" by simp_all
  from to_lower_of_letter [OF lb Cons.hyps(1)] have "to_lower a = b" "a \<noteq> CHR 0x00" .
  moreover have "qstrlwr (c_str p) = w" using Cons.IH lw by simp
  ultimately show ?case by (simp add: qstrlwr_def c_str_def)
qed

lemma provider_names_lower:
  "list_all is_lower ''gemini''" "list_all is_lower ''openai''"
  "list_all is_lower ''anthropic''" "list_all is_lower ''copilot''"
  by (simp_all add: is_lower_def)

lemma context_guard_failed:
  assumes "json_path ctx [Key ''ok''] = Some (JBool False)"
    and "json_path ctx [Key ''message''] = Some (JString m)"
  shows "context_guard ctx (Some f) = Some ([CallbackInvoked m], thrown (f m))"
  using assms
  by (auto simp: context_guard_def at_key_def get_bool_def get_string_def bind_def invoke_def
        split: json.splits option.splits)

lemma context_ok_false:
  assumes "json_path ctx [Key ''ok''] = Some (JBool False)"
  shows "bind (at_key ctx ''ok'') get_bool = Returns False"
  using assms
  by (auto simp: at_key_def get_bool_def bind_def split: json.splits option.splits)

lemma letter_of_to_lower:
  assumes "is_lower b" and "to_lower a = b"
  shows "a = b \<or> a = to_upper b"
proof (cases "is_upper a")
  case False
  then show ?thesis using assms(2) by (simp add: to_lower_def)
next
  case True
  let ?n = "of_char a :: nat"
  have n: "65 \<le> ?n" "?n \<le> 90" using True by (simp_all add: is_upper_def Let_def)
  have b: "b = char_of (?n + 32)" using True assms(2) by (simp add: to_lower_def)
  have "of_char b = ?n + 32" using n by (simp add: b)
  then have "to_upper b = char_of ?n" using n by (simp add: to_upper_def Let_def)
  then show ?thesis by simp
qed

lemma lowered_is_capitalization:
  "map to_lower p = w \<Longrightarrow> list_all is_lower w \<Longrightarrow>
     list_all2 (\<lambda>a b. a = b \<or> a = to_upper b) p w"
proof (induction p arbitrary: w)
  case Nil
  then show ?case by simp
next
  case (Cons a p)
  then obtain b w' where w: "w = b # w'" and ab: "to_lower a = b" and rest: "map to_lower p = w'"
    by auto
  from Cons.prems(2) w have lb: "is_lower b" and lw: "list_all is_lower w'" by simp_all
  from letter_of_to_lower [OF lb ab] Cons.IH [OF rest lw] show ?case by (simp add: w)
qed

lemma c_str_without_nul: "CHR 0x00 \<notin> set s \<Longrightarrow> c_str s = s"
  by (auto simp: c_str_def takeWhile_eq_all_conv)

lemma not_capitalization_not_lowered:
  assumes "CHR 0x00 \<notin> set p" and "\<not> is_capitalization p w" and "list_all is_lower w"
  shows "qstrlwr (c_str p) \<noteq> w"
  using assms lowered_is_capitalization [of p w]
  by (auto simp: c_str_without_nul qstrlwr_def is_capitalization_def)

lemma error_details_cases:
  "error_details e [] = Returns ''No details in response body.''"
  "body \<noteq> [] \<Longrightarrow> json_parse e body = Parsed j \<Longrightarrow> json_dump e (Some 2) j = Inr d \<Longrightarrow>
     error_details e body = Returns (c_str d)"
  "body \<noteq> [] \<Longrightarrow> json_parse e body = ParseError w \<Longrightarrow> error_details e body = Returns (c_str body)"
  "body \<noteq> [] \<Longrightarrow> json_parse e body = ParseOther w \<Longrightarrow>
     error_details e body = Throws (StdException w)"
  by (simp_all add: error_details_def)

lemma worker_func_throws:
  assumes "validity_token (fst (host_actions (before_connect sch) cw))"
    and "snd (snd (blocking_generate e sch (fst (host_actions (before_connect sch) cw)) p t)) = Throws x"
  shows "\<exists>c2 req' ev. worker_func e sch cw req p t = Some (c2, req', ev)
           \<and> set (snd (worker_catch (Inl x))) \<subseteq> set ev \<and> ExecuteSync \<in> set ev
           \<and> was_cancelled req' = cancelled c2
           \<and> (\<not> cancelled c2 \<longrightarrow> result req' = fst (worker_catch (Inl x)))"
  using assms by (auto simp: worker_func_def Let_def split_beta)

lemma worker_catch_other:
  "worker_catch (Inl OtherException) =
     (''Error: Unknown exception in worker thread.'',
      [Warning ''AiDA: Error: Unknown exception in worker thread.''])"
  by (simp add: worker_catch_def Let_def c_str_def)

lemma request_payload_cong:
  "kind c' = kind c \<Longrightarrow> model_name c' = model_name c \<Longrightarrow>
     request_payload e c' p t = request_payload e c p t"
  by (simp add: request_payload_def openai_payload_def anthropic_payload_def copilot_payload_def
        split: provider.splits)

lemma generate_model_name: "model_name (fst (generate e c p cb t)) = model_name c"
  by (simp add: generate_def Let_def)

lemma post_when_threw:
  assumes "http_post e rq = PostThrew (StdException w)"
  shows "snd (snd (http_post_request e sch c rq parser))
           = Returns (''Error: API call failed. Details: '' @ w)"
  using assms by (simp add: http_post_request_def Let_def split_beta api_call_failed_def)

section \<open>The claims\<close>

subsection \<open>C7: availability of the four adapters\<close>

text \<open>
  C7. For each of the four provider adapters, \<open>is_available\<close> is false exactly when the
  provider's required field (the Gemini, OpenAI or Anthropic API key, the Copilot proxy
  address) is the empty string, and true otherwise; it reads nothing but the settings, so
  neither the flags of a request in flight nor the state of the HTTP handle change it.
\<close>

theorem is_available_iff_configured:
  "is_available (c\<lparr>kind := GeminiClient\<rparr>) = (gemini_api_key (settings c) \<noteq> [])
   \<and> is_available (c\<lparr>kind := OpenAIClient\<rparr>) = (openai_api_key (settings c) \<noteq> [])
   \<and> is_available (c\<lparr>kind := AnthropicClient\<rparr>) = (anthropic_api_key (settings c) \<noteq> [])
   \<and> is_available (c\<lparr>kind := CopilotClient\<rparr>) = (copilot_proxy_address (settings c) \<noteq> [])
   \<and> is_available (c\<lparr>cancelled := x, task_done := d, http_client := h, worker_joinable := j,
                       validity_token := v\<rparr>) = is_available c"
  by (simp add: is_available_def split: provider.splits)

theorem is_available_iff_configured_witness:
  "is_available (new_client GeminiClient example_settings)
   \<and> is_available (new_client OpenAIClient example_settings) = False
   \<and> is_available (new_client AnthropicClient example_settings) = False
   \<and> is_available (new_client CopilotClient example_settings)"
  using is_available_iff_configured
           [of "new_client GeminiClient example_settings" False False False False True]
  by (simp add: new_client_def example_settings_def is_available_def)

subsection \<open>C9: a response with a status other than 200\<close>

text \<open>
  C9, as amended. When \<open>Post\<close> comes back with an HTTP status other than 200, no
  cancellation was requested, and the body is empty, or parses as JSON that \<open>dump(2)\<close>
  serialises, or is rejected by \<open>json::parse\<close> with a \<open>parse_error\<close>, then
  \<open>_http_post_request\<close> logs one message with the host, the status and the detail (the
  note \<open>No details in response body.\<close> for an empty body, the parsed body re-serialised
  with indent 2, else the body as it came) and returns exactly
  \<open>Error: API returned status\<close> followed by the status in decimal.
\<close>

theorem status_error_reported:
  assumes "http_post e rq = PostResponse status body" and "status \<noteq> 200"
    and "\<not> cancelled c"
    and "list_all (\<lambda>a. \<not> cancels a) (during_post sch @ before_cancel_check sch)"
  shows "(body = [] \<longrightarrow>
            http_post_request e sch c rq parser =
              (c\<lparr>http_client := False\<rparr>,
               [HttpPost rq, api_error_msg (req_host rq) status ''No details in response body.''],
               Returns (''Error: API returned status '' @ to_string status)))
       \<and> (\<forall>j d. body \<noteq> [] \<and> json_parse e body = Parsed j \<and> json_dump e (Some 2) j = Inr d \<longrightarrow>
            http_post_request e sch c rq parser =
              (c\<lparr>http_client := False\<rparr>,
               [HttpPost rq, api_error_msg (req_host rq) status (c_str d)],
               Returns (''Error: API returned status '' @ to_string status)))
       \<and> (\<forall>w. body \<noteq> [] \<and> json_parse e body = ParseError w \<longrightarrow>
            http_post_request e sch c rq parser =
              (c\<lparr>http_client := False\<rparr>,
               [HttpPost rq, api_error_msg (req_host rq) status (c_str body)],
               Returns (''Error: API returned status '' @ to_string status)))"
  using assms(2)
  by (auto simp: post_uncancelled [OF assms(3,4,1)] error_details_cases)

theorem status_error_reported_witness:
  \<open>http_post_request (example_env (PostResponse 403 bad_key_body)) no_actions
      (new_client OpenAIClient example_settings)
      (openai_request (new_client OpenAIClient example_settings) ''{}'')
      (openai_parser (example_env (PostResponse 403 bad_key_body)))
    = (new_client OpenAIClient example_settings,
       [HttpPost (openai_request (new_client OpenAIClient example_settings) ''{}''),
        Msg (''AiDA: API Error. Host: https://api.openai.com, Status: 403'' @ [nl]
             @ ''Response body: {'' @ [nl] @ ''  "error": "bad key"'' @ [nl] @ ''}'' @ [nl])],
       Returns ''Error: API returned status 403'')
   \<and> http_post_request (example_env (PostResponse 502 ''<html>'')) no_actions
      (new_client OpenAIClient example_settings)
      (openai_request (new_client OpenAIClient example_settings) ''{}'')
      (openai_parser (example_env (PostResponse 502 ''<html>'')))
    = (new_client OpenAIClient example_settings,
       [HttpPost (openai_request (new_client OpenAIClient example_settings) ''{}''),
        Msg (''AiDA: API Error. Host: https://api.openai.com, Status: 502'' @ [nl]
             @ ''Response body: <html>'' @ [nl])],
       Returns ''Error: API returned status 502'')
   \<and> http_post_request (example_env (PostResponse 500 [])) no_actions
      (new_client OpenAIClient example_settings)
      (openai_request (new_client OpenAIClient example_settings) ''{}'')
      (openai_parser (example_env (PostResponse 500 [])))
    = (new_client OpenAIClient example_settings,
       [HttpPost (openai_request (new_client OpenAIClient example_settings) ''{}''),
        Msg (''AiDA: API Error. Host: https://api.openai.com, Status: 500'' @ [nl]
             @ ''Response body: No details in response body.'' @ [nl])],
       Returns ''Error: API returned status 500'')\<close>
proof -
  let ?c = "new_client OpenAIClient example_settings"
  let ?rq = "openai_request ?c ''{}''"
  have post: "http_post (example_env (PostResponse s b)) ?rq = PostResponse s b" for s b
    by (simp add: example_env_def)
  have n: "(403::int) \<noteq> 200" "(502::int) \<noteq> 200" "(500::int) \<noteq> 200" by simp_all
  have h3: "\<not> cancelled ?c" by (simp add: new_client_def)
  have h4: "list_all (\<lambda>a. \<not> cancels a) (during_post no_actions @ before_cancel_check no_actions)"
    by (simp add: no_actions_def)
  have d: "json_dump (example_env x) (Some 2) bad_key_json
             = Inr (''{'' @ [nl] @ ''  \"error\": \"bad key\"'' @ [nl] @ ''}'')" for x
    by (simp add: example_env_def example_dump_def bad_key_json_def)
  have ne: "bad_key_body \<noteq> []" "''<html>'' \<noteq> []" by (simp_all add: bad_key_body_def)
  have t: "to_string 403 = ''403''" "to_string 502 = ''502''" "to_string 500 = ''500''"
    by (simp_all add: to_string_def string_of_nat.simps digit_def)
  have host: "req_host ?rq = ''https://api.openai.com''" by (simp add: openai_request_def)
  have c: "?c\<lparr>http_client := False\<rparr> = ?c" by (simp add: new_client_def)
  show ?thesis
    using status_error_reported [OF post n(1) h3 h4,
            of bad_key_body "openai_parser (example_env (PostResponse 403 bad_key_body))"]
          status_error_reported [OF post n(2) h3 h4,
            of "''<html>''" "openai_parser (example_env (PostResponse 502 ''<html>''))"]
          status_error_reported [OF post n(3) h3 h4,
            of "[]" "openai_parser (example_env (PostResponse 500 []))"]
          ne
    by (simp add: example_parse_simps d t host c api_error_msg_def c_str_def nl_def)
qed

text \<open>
  The claim as it was stated fails. The handler around the parsing of the body catches
  \<open>json::parse_error\<close> only: on the body \<open>1e999\<close>, \<open>json::parse\<close> throws
  \<open>out_of_range\<close>, the handler of the whole function takes it, and the result is
  \<open>Error: API call failed\<close>, with a warning in place of the message. And for an empty
  body the message carries a fixed note where the claim has the raw body.
\<close>

theorem status_error_lost_on_other_parse_fault:
  "http_post_request (example_env (PostResponse 500 overflow_body)) no_actions
      (new_client OpenAIClient example_settings)
      (openai_request (new_client OpenAIClient example_settings) ''{}'')
      (openai_parser (example_env (PostResponse 500 overflow_body)))
    = (new_client OpenAIClient example_settings,
       [HttpPost (openai_request (new_client OpenAIClient example_settings) ''{}''),
        Warning (''AI Assistant: API call to https://api.openai.com failed: ''
                 @ ''[json.exception.out_of_range.406] number overflow parsing ''
                 @ [CHR 0x27] @ ''1e999'' @ [CHR 0x27] @ [nl])],
       Returns (''Error: API call failed. Details: ''
                @ ''[json.exception.out_of_range.406] number overflow parsing ''
                @ [CHR 0x27] @ ''1e999'' @ [CHR 0x27]))
   \<and> fst (snd (http_post_request (example_env (PostResponse 500 [])) no_actions
      (new_client OpenAIClient example_settings)
      (openai_request (new_client OpenAIClient example_settings) ''{}'')
      (openai_parser (example_env (PostResponse 500 []))))) ! 1
    = Msg (''AiDA: API Error. Host: https://api.openai.com, Status: 500'' @ [nl]
           @ ''Response body: No details in response body.'' @ [nl])"
proof -
  let ?c = "new_client OpenAIClient example_settings"
  let ?rq = "openai_request ?c ''{}''"
  have post: "http_post (example_env (PostResponse s b)) ?rq = PostResponse s b" for s b
    by (simp add: example_env_def)
  have h3: "\<not> cancelled ?c" by (simp add: new_client_def)
  have h4: "list_all (\<lambda>a. \<not> cancels a) (during_post no_actions @ before_cancel_check no_actions)"
    by (simp add: no_actions_def)
  have ne: "overflow_body \<noteq> []" by (simp add: overflow_body_def)
  have t: "to_string 500 = ''500''"
    by (simp add: to_string_def string_of_nat.simps digit_def)
  have host: "req_host ?rq = ''https://api.openai.com''" by (simp add: openai_request_def)
  have c: "?c\<lparr>http_client := False\<rparr> = ?c" by (simp add: new_client_def)
  show ?thesis
    by (simp add: post_uncancelled [OF h3 h4 post] error_details_cases(1)
          error_details_cases(4) [OF ne example_parse_simps(7)]
          api_call_failed_def api_error_msg_def host c t c_str_def nl_def)
qed

subsection \<open>C3: faults of JSON parsing and of the response parser\<close>

text \<open>
  C3, as amended. When \<open>Post\<close> comes back with status 200 and no cancellation was
  requested, a fault derived from \<open>std::exception\<close> that JSON parsing of the body or the
  response parser raises is caught by \<open>_http_post_request\<close> itself, which logs the
  warning \<open>API call to <host> failed: <what>\<close> and returns
  \<open>Error: API call failed. Details: <what>\<close>; a fault of the response parser that is
  not a \<open>std::exception\<close> leaves \<open>_http_post_request\<close> uncaught. When such a fault
  leaves \<open>_blocking_generate\<close> on a live client, the worker logs a warning, hands the
  request to the host thread, and, unless it sees the request cancelled, gives it the
  result \<open>Error: Unknown exception in worker thread.\<close>
\<close>

theorem parse_faults_are_caught_by_transport:
  "(http_post e rq = PostResponse 200 body \<and> \<not> cancelled c
      \<and> list_all (\<lambda>a. \<not> cancels a) (during_post sch @ before_cancel_check sch) \<longrightarrow>
        http_post_request e sch c rq parser =
           (case json_parse e body of
              ParseError w \<Rightarrow>
                (c\<lparr>http_client := False\<rparr>,
                 [HttpPost rq,
                  Warning (''AI Assistant: API call to '' @ c_str (req_host rq) @ '' failed: '' @ w
                           @ [nl])],
                 Returns (''Error: API call failed. Details: '' @ w))
            | ParseOther w \<Rightarrow>
                (c\<lparr>http_client := False\<rparr>,
                 [HttpPost rq,
                  Warning (''AI Assistant: API call to '' @ c_str (req_host rq) @ '' failed: '' @ w
                           @ [nl])],
                 Returns (''Error: API call failed. Details: '' @ w))
            | Parsed jres \<Rightarrow>
                (case parser jres of
                   (pev, Throws (StdException w)) \<Rightarrow>
                     (c\<lparr>http_client := False\<rparr>,
                      HttpPost rq # pev
                      @ [Warning (''AI Assistant: API call to '' @ c_str (req_host rq)
                                  @ '' failed: '' @ w @ [nl])],
                      Returns (''Error: API call failed. Details: '' @ w))
                 | (pev, Throws OtherException) \<Rightarrow>
                     (c\<lparr>http_client := False\<rparr>, HttpPost rq # pev, Throws OtherException)
                 | (pev, out) \<Rightarrow> (c\<lparr>http_client := False\<rparr>, HttpPost rq # pev, out))))
   \<and> (validity_token (fst (host_actions (before_connect sch) cw))
        \<and> snd (snd (blocking_generate e sch (fst (host_actions (before_connect sch) cw)) p t))
            = Throws OtherException \<longrightarrow>
        (\<exists>c2 req' ev. worker_func e sch cw req p t = Some (c2, req', ev)
               \<and> Warning ''AiDA: Error: Unknown exception in worker thread.'' \<in> set ev
               \<and> ExecuteSync \<in> set ev
               \<and> was_cancelled req' = cancelled c2
               \<and> (\<not> cancelled c2 \<longrightarrow>
                    result req' = ''Error: Unknown exception in worker thread.'')))"
proof -
  have a: "http_post_request e sch c rq parser =
           (case json_parse e body of
              ParseError w \<Rightarrow>
                (c\<lparr>http_client := False\<rparr>,
                 [HttpPost rq,
                  Warning (''AI Assistant: API call to '' @ c_str (req_host rq) @ '' failed: '' @ w
                           @ [nl])],
                 Returns (''Error: API call failed. Details: '' @ w))
            | ParseOther w \<Rightarrow>
                (c\<lparr>http_client := False\<rparr>,
                 [HttpPost rq,
                  Warning (''AI Assistant: API call to '' @ c_str (req_host rq) @ '' failed: '' @ w
                           @ [nl])],
                 Returns (''Error: API call failed. Details: '' @ w))
            | Parsed jres \<Rightarrow>
                (case parser jres of
                   (pev, Throws (StdException w)) \<Rightarrow>
                     (c\<lparr>http_client := False\<rparr>,
                      HttpPost rq # pev
                      @ [Warning (''AI Assistant: API call to '' @ c_str (req_host rq)
                                  @ '' failed: '' @ w @ [nl])],
                      Returns (''Error: API call failed. Details: '' @ w))
                 | (pev, Throws OtherException) \<Rightarrow>
                     (c\<lparr>http_client := False\<rparr>, HttpPost rq # pev, Throws OtherException)
                 | (pev, out) \<Rightarrow> (c\<lparr>http_client := False\<rparr>, HttpPost rq # pev, out)))"
    if "http_post e rq = PostResponse 200 body" and "\<not> cancelled c"
      and "list_all (\<lambda>a. \<not> cancels a) (during_post sch @ before_cancel_check sch)"
    by (simp add: post_uncancelled [OF that(2,3,1)] api_call_failed_def
          split: parse_outcome.splits prod.splits outcome.splits exn.splits)
  have b: "(\<exists>c2 req' ev. worker_func e sch cw req p t = Some (c2, req', ev)
               \<and> Warning ''AiDA: Error: Unknown exception in worker thread.'' \<in> set ev
               \<and> ExecuteSync \<in> set ev
               \<and> was_cancelled req' = cancelled c2
               \<and> (\<not> cancelled c2 \<longrightarrow>
                    result req' = ''Error: Unknown exception in worker thread.''))"
    if "validity_token (fst (host_actions (before_connect sch) cw))"
      and "snd (snd (blocking_generate e sch (fst (host_actions (before_connect sch) cw)) p t))
                = Throws OtherException"
    using worker_func_throws [OF that, of req] by (auto simp: worker_catch_other)
  show ?thesis using a b by blast
qed

theorem parse_faults_are_caught_by_transport_witness:
  "http_post_request (example_env (PostResponse 200 ''<html>'')) no_actions
     (new_client GeminiClient example_settings)
     (gemini_request (new_client GeminiClient example_settings) example_payload_text)
     (gemini_parser (example_env (PostResponse 200 ''<html>'')))
   = (new_client GeminiClient example_settings,
      [HttpPost (gemini_request (new_client GeminiClient example_settings) example_payload_text),
       Warning (''AI Assistant: API call to https://generativelanguage.googleapis.com failed: ''
                @ ''[json.exception.parse_error.101] parse error'' @ [nl])],
      Returns ''Error: API call failed. Details: [json.exception.parse_error.101] parse error'')
   \<and> (\<exists>c2 req' ev.
        worker_func (example_env (PostThrew OtherException)) no_actions
          (new_client GeminiClient example_settings) (new_request quiet_callback (Some 7))
          ''Explain this function.'' 0 = Some (c2, req', ev)
        \<and> Warning ''AiDA: Error: Unknown exception in worker thread.'' \<in> set ev
        \<and> \<not> was_cancelled req'
        \<and> result req' = ''Error: Unknown exception in worker thread.'')"
proof -
  let ?c = "new_client GeminiClient example_settings"
  let ?rq = "gemini_request ?c example_payload_text"
  let ?e = "example_env (PostThrew OtherException)"
  let ?e2 = "example_env (PostResponse 200 ''<html>'')"
  let ?req = "new_request quiet_callback (Some 7)"
  have h1: "http_post ?e2 ?rq = PostResponse 200 ''<html>''"
    by (simp add: example_env_def)
  have h2: "\<not> cancelled ?c" by (simp add: example_client_simps)
  have h3: "list_all (\<lambda>a. \<not> cancels a) (during_post no_actions @ before_cancel_check no_actions)"
    by (simp add: no_actions_def)
  have na: "before_connect no_actions = []" "during_post no_actions = []"
    "before_worker_load no_actions = []"
    by (simp_all add: no_actions_def)
  have v: "validity_token (fst (host_actions (before_connect no_actions) ?c))"
    by (simp add: na example_client_simps)
  have post: "http_post ?e rq = PostThrew OtherException" for rq by (simp add: example_env_def)
  have bg: "blocking_generate ?e no_actions ?c ''Explain this function.'' 0
            = (?c\<lparr>http_client := True\<rparr>, [HttpPost ?rq], Throws OtherException)"
    by (simp add: na blocking_generate_def example_client_simps example_dump_simps
          http_post_request_def Let_def post)
  then have bg': "snd (snd (blocking_generate ?e no_actions
              (fst (host_actions (before_connect no_actions) ?c)) ''Explain this function.'' 0))
            = Throws OtherException"
    by (simp add: na)
  have host: "req_host ?rq = ''https://generativelanguage.googleapis.com''"
    by (simp add: gemini_request_def)
  have c: "?c\<lparr>http_client := False\<rparr> = ?c" by (simp add: new_client_def)
  from parse_faults_are_caught_by_transport
         [where e = ?e2 and rq = ?rq and body = "''<html>''" and c = ?c and sch = no_actions
            and parser = "gemini_parser ?e2"] h1 h2 h3
  have a: "http_post_request ?e2 no_actions ?c ?rq (gemini_parser ?e2)
           = (?c,
              [HttpPost ?rq,
               Warning (''AI Assistant: API call to https://generativelanguage.googleapis.com failed: ''
                        @ ''[json.exception.parse_error.101] parse error'' @ [nl])],
              Returns ''Error: API call failed. Details: [json.exception.parse_error.101] parse error'')"
    by (simp add: example_parse_simps host c c_str_def)
  from parse_faults_are_caught_by_transport
         [where e = ?e and sch = no_actions and cw = ?c and p = "''Explain this function.''"
            and t = 0 and req = ?req] v bg'
  obtain c2 req' ev where w: "worker_func ?e no_actions ?c ?req ''Explain this function.'' 0
            = Some (c2, req', ev)"
    and ev: "Warning ''AiDA: Error: Unknown exception in worker thread.'' \<in> set ev"
    and wc: "was_cancelled req' = cancelled c2"
    and r: "\<not> cancelled c2 \<longrightarrow> result req' = ''Error: Unknown exception in worker thread.''"
    by blast
  have "c2 = (fst (host_actions (before_worker_load no_actions)
                (fst (blocking_generate ?e no_actions
                   (fst (host_actions (before_connect no_actions) ?c)) ''Explain this function.'' 0))))
              \<lparr>task_done := True\<rparr>"
    by (rule worker_func_Some(1) [OF w])
  then have "\<not> cancelled c2" by (simp add: na bg example_client_simps)
  with w ev wc r a show ?thesis by auto
qed

text \<open>
  The claim as it was stated fails: with status 200, a body whose \<open>candidates[0]\<close> is a
  string and a body that is not JSON both end inside the transport adapter, as a warning
  and a returned \<open>Error: API call failed\<close> string; nothing is thrown to the worker.
\<close>

theorem parser_fault_does_not_reach_worker:
  "blocking_generate (example_env (PostResponse 200 odd_body)) no_actions
     (new_client GeminiClient example_settings) ''Explain this function.'' 0
     = (new_client GeminiClient example_settings,
        [HttpPost (gemini_request (new_client GeminiClient example_settings) example_payload_text),
         Warning (''AI Assistant: API call to https://generativelanguage.googleapis.com failed: ''
                  @ ''[json.exception.type_error.305] cannot use operator[] with a string argument with string''
                  @ [nl])],
        Returns (''Error: API call failed. Details: ''
                 @ ''[json.exception.type_error.305] cannot use operator[] with a string argument with string''))
   \<and> blocking_generate (example_env (PostResponse 200 ''<html>'')) no_actions
     (new_client GeminiClient example_settings) ''Explain this function.'' 0
     = (new_client GeminiClient example_settings,
        [HttpPost (gemini_request (new_client GeminiClient example_settings) example_payload_text),
         Warning (''AI Assistant: API call to https://generativelanguage.googleapis.com failed: ''
                  @ ''[json.exception.parse_error.101] parse error'' @ [nl])],
        Returns ''Error: API call failed. Details: [json.exception.parse_error.101] parse error'')"
proof -
  let ?c = "new_client GeminiClient example_settings"
  have h2: "\<not> cancelled ?c" by (simp add: new_client_def)
  have h3: "list_all (\<lambda>a. \<not> cancels a) (during_post no_actions @ before_cancel_check no_actions)"
    by (simp add: no_actions_def)
  have a: "http_post (example_env (PostResponse 200 b)) rq = PostResponse 200 b"
    for rq b by (simp add: example_env_def)
  have g: "gemini_parser e odd_json = ([], Throws (StdException
      ''[json.exception.type_error.305] cannot use operator[] with a string argument with string''))"
    for e
    by (simp add: gemini_parser_def odd_json_def has_nonempty_def json_contains_def
          const_at_key_def const_at_index_def json_empty_def bind_def type_error_305_key_def
          type_name_def)
  have host: "req_host (gemini_request ?c b) = ''https://generativelanguage.googleapis.com''" for b
    by (simp add: gemini_request_def)
  have c: "?c\<lparr>http_client := False\<rparr> = ?c" by (simp add: new_client_def)
  show ?thesis
    by (simp add: blocking_generate_def example_client_simps example_dump_simps
          post_uncancelled [OF h2 h3 a] example_parse_simps g api_call_failed_def host c c_str_def)
qed

subsection \<open>C5: the Gemini round trip\<close>

text \<open>
  C5, as amended. For the Gemini adapter with a non-empty API key, when no cancellation was
  requested, the payload serialises (the prompt is UTF-8), and \<open>Post\<close> comes back with
  status 200 and a body that parses as JSON with a string at
  \<open>candidates[0].content.parts[0].text\<close>, \<open>_blocking_generate\<close> returns exactly that
  string (\<open>hello\<close> for \<open>hello\<close>), and does nothing but the one request.
\<close>

theorem gemini_round_trip:
  assumes "kind c = GeminiClient" and "gemini_api_key (settings c) \<noteq> []"
    and "\<not> cancelled c"
    and "list_all (\<lambda>a. \<not> cancels a) (during_post sch @ before_cancel_check sch)"
    and "json_dump e None (gemini_payload p t) = Inr payload_text"
    and "http_post e (gemini_request c payload_text) = PostResponse 200 body"
    and "json_parse e body = Parsed jres"
    and "json_path jres [Key ''candidates'', Index 0, Key ''content'', Key ''parts'', Index 0,
                         Key ''text''] = Some (JString txt)"
  shows "blocking_generate e sch c p t =
           (c\<lparr>http_client := False\<rparr>, [HttpPost (gemini_request c payload_text)], Returns txt)"
proof -
  have av: "is_available c" using assms(1,2) by (simp add: is_available_def)
  have "http_post_request e sch c (gemini_request c payload_text) (gemini_parser e) =
          (c\<lparr>http_client := False\<rparr>, [HttpPost (gemini_request c payload_text)], Returns txt)"
    by (simp add: post_uncancelled [OF assms(3,4,6)] assms(7) gemini_parser_text [OF assms(8)])
  then show ?thesis using av assms(1,5) by (simp add: blocking_generate_def)
qed

theorem gemini_round_trip_witness:
  "blocking_generate (example_env (PostResponse 200 hello_body)) no_actions
     (new_client GeminiClient example_settings) ''Explain this function.'' 0
   = (new_client GeminiClient example_settings,
      [HttpPost (gemini_request (new_client GeminiClient example_settings) example_payload_text)],
      Returns ''hello'')"
proof -
  let ?e = "example_env (PostResponse 200 hello_body)"
  let ?c = "new_client GeminiClient example_settings"
  have h1: "kind ?c = GeminiClient" by (simp add: new_client_def)
  have h2: "gemini_api_key (settings ?c) \<noteq> []" by (simp add: new_client_def example_settings_def)
  have h3: "\<not> cancelled ?c" by (simp add: new_client_def)
  have h4: "list_all (\<lambda>a. \<not> cancels a) (during_post no_actions @ before_cancel_check no_actions)"
    by (simp add: no_actions_def)
  have h5: "json_dump ?e None (gemini_payload ''Explain this function.'' 0) = Inr example_payload_text"
    by (rule example_dump_simps)
  have h6: "http_post ?e (gemini_request ?c example_payload_text) = PostResponse 200 hello_body"
    by (simp add: example_env_def)
  have h7: "json_parse ?e hello_body = Parsed hello_json"
    by (rule example_parse_simps)
  have h8: "json_path hello_json [Key ''candidates'', Index 0, Key ''content'', Key ''parts'', Index 0,
                         Key ''text''] = Some (JString ''hello'')"
    by (simp add: hello_json_def)
  show ?thesis
    using gemini_round_trip [OF h1 h2 h3 h4 h5 h6 h7 h8]
    by (simp add: new_client_def)
qed

text \<open>
  The claim as it was stated fails: \<open>_http_post_request\<close> reads \<open>_cancelled\<close> before it
  looks at the response, so the same 200 response after a call of
  \<open>cancel_current_request\<close> gives \<open>Error: Operation cancelled.\<close>; and on a prompt
  that is not UTF-8, \<open>payload.dump()\<close> throws before anything is posted.
\<close>

theorem cancelled_round_trip_is_not_hello:
  "snd (snd (blocking_generate (example_env (PostResponse 200 hello_body))
               (no_actions\<lparr>during_post := [CancelCurrentRequest]\<rparr>)
               (new_client GeminiClient example_settings) ''Explain this function.'' 0))
     = Returns ''Error: Operation cancelled.''
   \<and> blocking_generate (example_env (PostResponse 200 hello_body)) no_actions
        (new_client GeminiClient example_settings) bad_prompt 0
     = (new_client GeminiClient example_settings, [], Throws (StdException bad_prompt_what))
   \<and> json_parse (example_env (PostResponse 200 hello_body)) hello_body = Parsed hello_json
   \<and> json_path hello_json [Key ''candidates'', Index 0, Key ''content'', Key ''parts'', Index 0,
                            Key ''text''] = Some (JString ''hello'')"
proof -
  let ?e = "example_env (PostResponse 200 hello_body)"
  let ?c = "new_client GeminiClient example_settings"
  let ?sch = "no_actions\<lparr>during_post := [CancelCurrentRequest]\<rparr>"
  have c: "cancelled (fst (host_actions (during_post ?sch) (?c\<lparr>http_client := True\<rparr>)))"
    by (simp add: host_action_def cancel_current_request_def)
  have nt: "\<forall>x. http_post ?e rq \<noteq> PostThrew x" for rq by (simp add: example_env_def)
  have "snd (snd (blocking_generate ?e ?sch ?c ''Explain this function.'' 0))
          = Returns ''Error: Operation cancelled.''"
    using post_when_cancelled(4) [OF c nt]
    by (simp add: blocking_generate_def example_client_simps example_dump_simps)
  moreover have "blocking_generate ?e no_actions ?c bad_prompt 0
     = (?c, [], Throws (StdException bad_prompt_what))"
    by (simp add: blocking_generate_def example_client_simps example_dump_simps)
  moreover have "json_path hello_json [Key ''candidates'', Index 0, Key ''content'', Key ''parts'',
       Index 0, Key ''text''] = Some (JString ''hello'')"
    by (simp add: hello_json_def)
  ultimately show ?thesis by (simp add: example_parse_simps)
qed

subsection \<open>C6: a response without the expected field\<close>

text \<open>
  C6, as amended. For every provider adapter that is configured, when no cancellation was
  requested, the payload serialises, and the status-200 body parses as JSON in which the
  provider's top-level field (\<open>candidates\<close> for Gemini, \<open>choices\<close> for OpenAI and
  Copilot, \<open>content\<close> for Anthropic) is missing or is empty (null, an empty array, an
  empty object), the result is \<open>Error: Received empty or invalid response from API.\<close>
  followed by a space and the text \<open>dump()\<close> gives for the response.
\<close>

theorem missing_top_level_field:
  assumes "is_available c" and "\<not> cancelled c"
    and "list_all (\<lambda>a. \<not> cancels a) (during_post sch @ before_cancel_check sch)"
    and "json_dump e None (request_payload e c p t) = Inr payload_text"
    and "\<And>rq. http_post e rq = PostResponse 200 body"
    and "json_parse e body = Parsed jres"
    and "absent_or_empty jres (expected_key (kind c))"
    and "json_dump e None jres = Inr d"
  shows "snd (snd (blocking_generate e sch c p t)) =
           Returns (''Error: Received empty or invalid response from API. '' @ d)"
  using assms(1,4,7)
  by (cases "kind c")
     (simp_all add: blocking_generate_def request_payload_def post_uncancelled [OF assms(2,3,5)]
        assms(6,8) expected_key_def parser_absent invalid_response_def)

theorem missing_top_level_field_witness:
  "snd (snd (blocking_generate (example_env (PostResponse 200 ''{}'')) no_actions
               (new_client GeminiClient example_settings) ''Explain this function.'' 0))
     = Returns ''Error: Received empty or invalid response from API. {}''"
proof -
  let ?e = "example_env (PostResponse 200 ''{}'')"
  let ?c = "new_client GeminiClient example_settings"
  have av: "is_available ?c" by (simp add: example_client_simps)
  have nc: "\<not> cancelled ?c" by (simp add: example_client_simps)
  have q: "list_all (\<lambda>a. \<not> cancels a) (during_post no_actions @ before_cancel_check no_actions)"
    by (simp add: no_actions_def)
  have pl: "json_dump ?e None (request_payload ?e ?c ''Explain this function.'' 0)
              = Inr example_payload_text"
    by (simp add: request_payload_def example_client_simps example_dump_simps)
  have post: "http_post ?e rq = PostResponse 200 ''{}''" for rq by (simp add: example_env_def)
  have parse: "json_parse ?e ''{}'' = Parsed (JObject [])" by (rule example_parse_simps)
  have ab: "absent_or_empty (JObject []) (expected_key (kind ?c))"
    by (simp add: absent_or_empty_def)
  have d: "json_dump ?e None (JObject []) = Inr ''{}''" by (rule example_dump_simps)
  show ?thesis
    using missing_top_level_field [OF av nc q pl post parse ab d] by simp
qed

text \<open>
  The claim as it was stated fails below the top-level field: with \<open>candidates[0]\<close> a
  string, \<open>operator[]\<close> throws and the transport adapter reports \<open>Error: API call failed\<close>;
  with \<open>candidates[0]\<close> an object that has no \<open>content\<close>, \<open>operator[]\<close> on the
  \<open>const json&\<close> has no defined result at all. And on a prompt that is not UTF-8 no
  response is ever looked at.
\<close>

theorem nested_field_absence_not_reported:
  "snd (snd (blocking_generate (example_env (PostResponse 200 odd_body)) no_actions
               (new_client GeminiClient example_settings) ''Explain this function.'' 0))
     = Returns (''Error: API call failed. Details: ''
                @ ''[json.exception.type_error.305] cannot use operator[] with a string argument with string'')
   \<and> json_parse (example_env (PostResponse 200 odd_body)) odd_body = Parsed odd_json
   \<and> json_path odd_json [Key ''candidates'', Index 0, Key ''content''] = None
   \<and> snd (snd (blocking_generate (example_env (PostResponse 200 blocked_body)) no_actions
               (new_client GeminiClient example_settings) ''Explain this function.'' 0))
     = Undefined
   \<and> json_parse (example_env (PostResponse 200 blocked_body)) blocked_body = Parsed blocked_json
   \<and> json_path blocked_json [Key ''candidates'', Index 0, Key ''content''] = None
   \<and> snd (snd (blocking_generate (example_env (PostResponse 200 ''{}'')) no_actions
               (new_client GeminiClient example_settings) bad_prompt 0))
     = Throws (StdException bad_prompt_what)"
proof -
  let ?c = "new_client GeminiClient example_settings"
  have h2: "\<not> cancelled ?c" by (simp add: new_client_def)
  have h3: "list_all (\<lambda>a. \<not> cancels a) (during_post no_actions @ before_cancel_check no_actions)"
    by (simp add: no_actions_def)
  have a: "http_post (example_env (PostResponse 200 b)) rq = PostResponse 200 b"
    for rq b by (simp add: example_env_def)
  have g: "gemini_parser e odd_json = ([], Throws (StdException
      ''[json.exception.type_error.305] cannot use operator[] with a string argument with string''))"
    for e
    by (simp add: gemini_parser_def odd_json_def has_nonempty_def json_contains_def
          const_at_key_def const_at_index_def json_empty_def bind_def type_error_305_key_def
          type_name_def)
  have gb: "gemini_parser e blocked_json = ([], Undefined)" for e
    by (simp add: gemini_parser_def blocked_json_def has_nonempty_def json_contains_def
          const_at_key_def const_at_index_def json_empty_def bind_def)
  have "json_path odd_json [Key ''candidates'', Index 0, Key ''content''] = None"
    by (simp add: odd_json_def)
  moreover have "json_path blocked_json [Key ''candidates'', Index 0, Key ''content''] = None"
    by (simp add: blocked_json_def)
  ultimately show ?thesis
    by (simp add: blocking_generate_def example_client_simps example_dump_simps
          post_uncancelled [OF h2 h3 a] example_parse_simps g gb api_call_failed_def)
qed

subsection \<open>C1: the callback runs at most once, in the finalization task\<close>

text \<open>
  C1. For every call of \<open>_generate\<close> whose worker has defined behaviour, neither the
  calling thread, nor the worker, nor the host's actions meanwhile invoke the result
  callback; the finalization task invokes it at most once; and if the validity token no
  longer resolves when the finalization task runs (as after a destruction of the client
  at any point after the call), the task only deletes itself: no callback, no timer, no
  message.
\<close>

theorem callback_at_most_once:
  assumes "run_request e sch c p cb t = Some tr"
  shows "filter is_callback (started tr @ worked tr @ waited tr) = []
       \<and> length (filter is_callback (finalized tr)) \<le> 1
       \<and> (\<not> validity_token (owner tr) \<longrightarrow> finalized tr = [DeleteRequest])
       \<and> (DestroyClient \<in> set (before_connect sch @ before_worker_load sch @ before_finalization sch)
            \<longrightarrow> \<not> validity_token (owner tr))"
proof -
  let ?g = "generate e c p cb t"
  from run_request_Some [OF assms] obtain c2 ev where
    w: "worker_func e sch (fst ?g) (fst (snd ?g)) p t = Some (c2, handed tr, ev)"
    and st: "started tr = snd (snd ?g)" and wk: "worked tr = ev"
    and wt: "waited tr = snd (host_actions (before_finalization sch) c2)"
    and ow: "owner tr = fst (host_actions (before_finalization sch) c2)"
    and fin: "finalized tr = execute (validity_token (owner tr)) (handed tr)"
    by blast
  have 1: "filter is_callback (started tr @ worked tr @ waited tr) = []"
    using st wk wt worker_func_Some(5) [OF w]
    by (simp add: generate_facts host_actions_no_callback)
  have 2: "length (filter is_callback (finalized tr)) \<le> 1"
    by (simp add: fin execute_callbacks)
  have 3: "finalized tr = [DeleteRequest]" if "\<not> validity_token (owner tr)"
    using that by (simp add: fin execute_def)
  have 4: "\<not> validity_token (owner tr)"
    if d: "DestroyClient \<in> set (before_connect sch @ before_worker_load sch @ before_finalization sch)"
  proof (cases "DestroyClient \<in> set (before_finalization sch)")
    case True
    then show ?thesis unfolding ow by (rule host_actions_destroy)
  next
    case False
    with d have "DestroyClient \<in> set (before_connect sch @ before_worker_load sch)" by auto
    then have "\<not> validity_token c2" using worker_func_token [OF w] by blast
    then show ?thesis unfolding ow by (rule host_actions_token)
  qed
  show ?thesis using 1 2 3 4 by blast
qed

theorem callback_at_most_once_witness:
  "(\<exists>tr. run_request (example_env (PostResponse 200 hello_body)) no_actions
           (new_client GeminiClient example_settings) ''Explain this function.'' quiet_callback 0
          = Some tr
        \<and> filter is_callback (started tr @ worked tr @ waited tr) = []
        \<and> length (filter is_callback (finalized tr)) \<le> 1
        \<and> finalized tr = [UnregisterTimer 7, CallbackInvoked ''hello'', DeleteRequest])
   \<and> (\<exists>tr. run_request (example_env (PostResponse 200 hello_body))
           (no_actions\<lparr>before_finalization := [DestroyClient]\<rparr>)
           (new_client GeminiClient example_settings) ''Explain this function.'' quiet_callback 0
          = Some tr
        \<and> \<not> validity_token (owner tr)
        \<and> finalized tr = [DeleteRequest])"
proof -
  obtain tr where r: "run_request (example_env (PostResponse 200 hello_body)) no_actions
           (new_client GeminiClient example_settings) ''Explain this function.'' quiet_callback 0
          = Some tr"
    and f: "finalized tr = [UnregisterTimer 7, CallbackInvoked ''hello'', DeleteRequest]"
    using example_run_hello by blast
  obtain tr' where r': "run_request (example_env (PostResponse 200 hello_body))
           (no_actions\<lparr>before_finalization := [DestroyClient]\<rparr>)
           (new_client GeminiClient example_settings) ''Explain this function.'' quiet_callback 0
          = Some tr'"
    using example_run_destroyed by blast
  have d: "DestroyClient \<in> set (before_connect (no_actions\<lparr>before_finalization := [DestroyClient]\<rparr>)
              @ before_worker_load (no_actions\<lparr>before_finalization := [DestroyClient]\<rparr>)
              @ before_finalization (no_actions\<lparr>before_finalization := [DestroyClient]\<rparr>))"
    by (simp add: no_actions_def)
  show ?thesis
    using callback_at_most_once [OF r] callback_at_most_once [OF r'] r r' f d by auto
qed

subsection \<open>C2: when the callback is suppressed\<close>

text \<open>
  C2, as amended. The finalization task invokes the callback, once and with the request's
  result, exactly when the validity token still resolves, the worker did not see the
  request cancelled, and a callback was given; whenever the worker did not see the
  request cancelled, that result is the string \<open>_blocking_generate\<close> returned (a generated
  text, or the error string of a missing credential, of a transport fault, of an HTTP
  status, of an invalid response) or the string the worker's handlers made of its
  exception. A request the worker saw cancelled gets no callback: the finalization task
  logs \<open>Operation cancelled by user\<close> instead.
\<close>

theorem callback_suppressed_iff:
  assumes "run_request e sch c p cb t = Some tr"
  shows "filter is_callback (finalized tr) =
           (if validity_token (owner tr) \<and> \<not> was_cancelled (handed tr) \<and> cb \<noteq> None
            then [CallbackInvoked (result (handed tr))] else [])
       \<and> (\<not> was_cancelled (handed tr) \<longrightarrow>
            outcome_string
              (snd (snd (blocking_generate e sch
                 (fst (host_actions (before_connect sch) (fst (generate e c p cb t)))) p t)))
            = Some (result (handed tr)))"
proof -
  let ?g = "generate e c p cb t"
  from run_request_Some [OF assms] obtain c2 ev where
    w: "worker_func e sch (fst ?g) (fst (snd ?g)) p t = Some (c2, handed tr, ev)"
    and fin: "finalized tr = execute (validity_token (owner tr)) (handed tr)"
    by blast
  have cb: "callback (handed tr) = cb"
    using worker_func_Some(3) [OF w] by (simp add: generate_facts new_request_def)
  have 1: "filter is_callback (finalized tr) =
           (if validity_token (owner tr) \<and> \<not> was_cancelled (handed tr) \<and> cb \<noteq> None
            then [CallbackInvoked (result (handed tr))] else [])"
    by (simp add: fin execute_callbacks cb)
  have 2: "outcome_string
              (snd (snd (blocking_generate e sch
                 (fst (host_actions (before_connect sch) (fst ?g))) p t)))
            = Some (result (handed tr))" if "\<not> was_cancelled (handed tr)"
    using that worker_func_Some(2,6,7) [OF w]
    by (auto simp: outcome_string_def split: outcome.splits)
  show ?thesis using 1 2 by blast
qed

theorem callback_suppressed_iff_witness:
  "\<exists>tr. run_request (example_env (PostFailed Canceled)) no_actions
           (new_client OpenAIClient example_settings) ''Explain this function.'' quiet_callback 0
         = Some tr
       \<and> filter is_callback (finalized tr) =
           [CallbackInvoked ''Error: OpenAI client is not initialized. Check API key.'']
       \<and> outcome_string
            (snd (snd (blocking_generate (example_env (PostFailed Canceled)) no_actions
               (fst (host_actions (before_connect no_actions)
                  (fst (generate (example_env (PostFailed Canceled))
                     (new_client OpenAIClient example_settings) ''Explain this function.''
                     quiet_callback 0))))
               ''Explain this function.'' 0)))
          = Some ''Error: OpenAI client is not initialized. Check API key.''"
proof -
  obtain tr where r: "run_request (example_env (PostFailed Canceled)) no_actions
           (new_client OpenAIClient example_settings) ''Explain this function.'' quiet_callback 0
         = Some tr"
    and f: "finalized tr =
           [UnregisterTimer 7,
            CallbackInvoked ''Error: OpenAI client is not initialized. Check API key.'',
            DeleteRequest]"
    and v: "validity_token (owner tr)" "\<not> was_cancelled (handed tr)"
    using example_run_not_configured by blast
  have cb: "quiet_callback \<noteq> None" by (simp add: quiet_callback_def)
  have "filter is_callback (finalized tr) =
           [CallbackInvoked ''Error: OpenAI client is not initialized. Check API key.'']"
    by (simp add: f is_callback_def)
  then show ?thesis
    using callback_suppressed_iff [OF r] r v cb by auto
qed

text \<open>
  The claim as it was stated fails: a request cancelled while \<open>Post\<close> is in flight, on a
  client that is never destroyed, ends with the log message and without the callback.
\<close>

theorem cancelled_request_never_calls_back:
  "map_option finalized
     (run_request (example_env (PostFailed Canceled))
        (no_actions\<lparr>during_post := [CancelCurrentRequest]\<rparr>)
        (new_client GeminiClient example_settings) ''Explain this function.'' quiet_callback 0)
     = Some [UnregisterTimer 7, Msg (''AI Assistant: Operation cancelled by user.'' @ [nl]),
             DeleteRequest]
   \<and> map_option (\<lambda>tr. validity_token (owner tr))
     (run_request (example_env (PostFailed Canceled))
        (no_actions\<lparr>during_post := [CancelCurrentRequest]\<rparr>)
        (new_client GeminiClient example_settings) ''Explain this function.'' quiet_callback 0)
     = Some True
   \<and> quiet_callback \<noteq> None"
  using example_run_cancelled by (auto simp: quiet_callback_def)

subsection \<open>C4: cancellation before the transport call completes\<close>

text \<open>
  C4, as amended. If \<open>cancel_current_request\<close> is called after \<open>_generate\<close> and before
  \<open>Post\<close> returns, on a configured client whose payload serialises and which is not
  destroyed before its worker has entered \<open>_blocking_generate\<close>, then the request runs
  to its end, the worker marks it cancelled and leaves its result empty, and no callback
  is invoked anywhere (the finalization task logs \<open>Operation cancelled by user\<close>, or
  only deletes itself when the client is gone). \<open>_blocking_generate\<close> returns the
  literal \<open>Error: Operation cancelled.\<close> when the HTTP library returns from its calls,
  and \<open>Error: API call failed. Details: <what>\<close> when it throws a \<open>std::exception\<close>.
\<close>

theorem cancel_before_transport_completes:
  assumes "is_available c" and "validity_token c"
    and "json_dump e None (request_payload e c p t) = Inr payload_text"
    and "DestroyClient \<notin> set (before_connect sch)"
    and "list_ex cancels (before_connect sch @ during_post sch)"
  shows "\<exists>tr. run_request e sch c p cb t = Some tr
           \<and> was_cancelled (handed tr) \<and> result (handed tr) = []
           \<and> filter is_callback (started tr @ worked tr @ waited tr @ finalized tr) = []
           \<and> finalized tr =
               (if validity_token (owner tr) then
                  (case register_timer e of None \<Rightarrow> [] | Some n \<Rightarrow> [UnregisterTimer n])
                  @ [Msg (''AI Assistant: Operation cancelled by user.'' @ [nl]), DeleteRequest]
                else [DeleteRequest])
           \<and> ((\<forall>rq x. http_post e rq \<noteq> PostThrew x) \<longrightarrow>
                snd (snd (blocking_generate e sch
                   (fst (host_actions (before_connect sch) (fst (generate e c p cb t)))) p t))
                = Returns ''Error: Operation cancelled.'')
           \<and> (\<forall>w. (\<forall>rq. http_post e rq = PostThrew (StdException w)) \<longrightarrow>
                snd (snd (blocking_generate e sch
                   (fst (host_actions (before_connect sch) (fst (generate e c p cb t)))) p t))
                = Returns (''Error: API call failed. Details: '' @ w))"
proof -
  let ?g = "generate e c p cb t"
  let ?c1 = "fst ?g"
  let ?req = "fst (snd ?g)"
  let ?c0 = "fst (host_actions (before_connect sch) ?c1)"
  let ?bg = "blocking_generate e sch ?c0 p t"
  have av: "is_available ?c0"
    using assms(1)
    by (simp add: is_available_def host_actions_fields generate_facts split: provider.splits)
  have nd: "\<not> task_done ?c0" by (simp add: host_actions_fields generate_facts)
  have tok: "validity_token ?c0"
    using assms(2,4) by (simp add: host_actions_token_kept generate_facts)
  have pl: "json_dump e None (request_payload e ?c0 p t) = Inr payload_text"
    using assms(3)
    by (simp add: request_payload_cong [of ?c0 c] host_actions_fields generate_facts
          generate_model_name)
  have canc: "cancelled (fst (host_actions (during_post sch) (?c0\<lparr>http_client := True\<rparr>)))"
  proof (cases "list_ex cancels (before_connect sch)")
    case True
    then have "cancelled ?c0" by (rule host_actions_cancels) (simp add: generate_facts)
    then show ?thesis by (simp add: host_actions_cancelled_mono)
  next
    case False
    with assms(5) have "list_ex cancels (during_post sch)" by simp
    then show ?thesis by (rule host_actions_cancels) (simp add: nd)
  qed
  note bg = blocking_generate_when_cancelled [OF av pl canc]
  from blocking_generate_posts [OF av pl] obtain rq parser where
    bgp: "?bg = http_post_request e sch ?c0 rq parser" by blast
  have threw: "snd (snd ?bg) = Returns (''Error: API call failed. Details: '' @ w)"
    if "\<forall>rq. http_post e rq = PostThrew (StdException w)" for w
    unfolding bgp using that by (intro post_when_threw) simp
  from worker_func_defined [OF bg(2) tok] obtain c2 req' ev where
    w: "worker_func e sch ?c1 ?req p t = Some (c2, req', ev)"
    by (metis prod_cases3)
  have c2: "cancelled c2"
    using worker_func_Some(1) [OF w] bg(1) by (simp add: host_actions_cancelled_mono)
  have wc: "was_cancelled req'" using worker_func_Some(2) [OF w] c2 by simp
  have res: "result req' = []"
    using worker_func_Some(7) [OF w] c2 by (simp add: generate_facts new_request_def)
  have tm: "timer req' = register_timer e"
    using worker_func_Some(4) [OF w] by (simp add: generate_facts new_request_def)
  let ?c3 = "fst (host_actions (before_finalization sch) c2)"
  let ?tr = "\<lparr> started = snd (snd ?g), worked = ev,
               waited = snd (host_actions (before_finalization sch) c2),
               finalized = execute (validity_token ?c3) req', handed = req', owner = ?c3 \<rparr>"
  have run: "run_request e sch c p cb t = Some ?tr"
    using w by (simp add: run_request_def Let_def split_beta)
  have fin: "execute (validity_token ?c3) req' =
               (if validity_token ?c3 then
                  (case register_timer e of None \<Rightarrow> [] | Some n \<Rightarrow> [UnregisterTimer n])
                  @ [Msg (''AI Assistant: Operation cancelled by user.'' @ [nl]), DeleteRequest]
                else [DeleteRequest])"
    using wc tm by (simp add: execute_def)
  have nocb: "filter is_callback (started ?tr @ worked ?tr @ waited ?tr @ finalized ?tr) = []"
    using worker_func_Some(5) [OF w] wc
    by (simp add: generate_facts host_actions_no_callback execute_callbacks)
  show ?thesis
    using run wc res nocb fin bg(4) threw by (intro exI [of _ ?tr]) simp
qed

theorem cancel_before_transport_completes_witness:
  "\<exists>tr. run_request (example_env (PostFailed Canceled))
           (no_actions\<lparr>during_post := [CancelCurrentRequest]\<rparr>)
           (new_client GeminiClient example_settings) ''Explain this function.'' quiet_callback 0
         = Some tr
       \<and> was_cancelled (handed tr) \<and> result (handed tr) = []
       \<and> filter is_callback (started tr @ worked tr @ waited tr @ finalized tr) = []
       \<and> finalized tr = [UnregisterTimer 7,
                         Msg (''AI Assistant: Operation cancelled by user.'' @ [nl]), DeleteRequest]
       \<and> snd (snd (blocking_generate (example_env (PostFailed Canceled))
               (no_actions\<lparr>during_post := [CancelCurrentRequest]\<rparr>)
               (fst (host_actions
                  (before_connect (no_actions\<lparr>during_post := [CancelCurrentRequest]\<rparr>))
                  (fst (generate (example_env (PostFailed Canceled))
                     (new_client GeminiClient example_settings) ''Explain this function.''
                     quiet_callback 0))))
               ''Explain this function.'' 0))
          = Returns ''Error: Operation cancelled.''"
proof -
  let ?sch = "no_actions\<lparr>during_post := [CancelCurrentRequest]\<rparr>"
  let ?e = "example_env (PostFailed Canceled)"
  let ?c = "new_client GeminiClient example_settings"
  have h1: "is_available ?c" by (simp add: example_client_simps)
  have h2: "validity_token ?c" by (simp add: example_client_simps)
  have h3: "json_dump ?e None (request_payload ?e ?c ''Explain this function.'' 0)
              = Inr example_payload_text"
    by (simp add: request_payload_def example_client_simps example_dump_simps)
  have h4: "DestroyClient \<notin> set (before_connect ?sch)" by (simp add: no_actions_def)
  have h5: "list_ex cancels (before_connect ?sch @ during_post ?sch)"
    by (simp add: no_actions_def cancels_def)
  have h6: "\<forall>rq x. http_post ?e rq \<noteq> PostThrew x" by (simp add: example_env_def)
  from cancel_before_transport_completes [OF h1 h2 h3 h4 h5, of quiet_callback] h6
  obtain tr where r: "run_request ?e ?sch ?c ''Explain this function.'' quiet_callback 0 = Some tr"
    and a: "was_cancelled (handed tr)" "result (handed tr) = []"
           "filter is_callback (started tr @ worked tr @ waited tr @ finalized tr) = []"
    and b: "snd (snd (blocking_generate ?e ?sch
               (fst (host_actions (before_connect ?sch)
                  (fst (generate ?e ?c ''Explain this function.'' quiet_callback 0))))
               ''Explain this function.'' 0))
          = Returns ''Error: Operation cancelled.''"
    by blast
  from example_run_cancelled r
  have f: "finalized tr = [UnregisterTimer 7,
             Msg (''AI Assistant: Operation cancelled by user.'' @ [nl]), DeleteRequest]"
    by auto
  show ?thesis
    using r a b f by (intro exI [of _ tr] conjI)
qed

text \<open>
  The claim as it was stated fails: the handler of \<open>_http_post_request\<close> does not read
  \<open>_cancelled\<close>. After a cancel, a constructor of the HTTP client that throws gives
  \<open>Error: API call failed\<close>, not the literal.
\<close>

theorem cancelled_call_that_throws_is_not_the_literal:
  "blocking_generate
     (example_env (PostThrew (StdException
        ([CHR 0x27] @ ''https'' @ [CHR 0x27] @ '' scheme is not supported.''))))
     (no_actions\<lparr>before_connect := [CancelCurrentRequest]\<rparr>)
     ((new_client GeminiClient example_settings)\<lparr>cancelled := True\<rparr>)
     ''Explain this function.'' 0
   = ((new_client GeminiClient example_settings)\<lparr>cancelled := True\<rparr>,
      [HttpPost (gemini_request (new_client GeminiClient example_settings) example_payload_text),
       Warning (''AI Assistant: API call to https://generativelanguage.googleapis.com failed: ''
                @ [CHR 0x27] @ ''https'' @ [CHR 0x27] @ '' scheme is not supported.'' @ [nl])],
      Returns (''Error: API call failed. Details: ''
               @ [CHR 0x27] @ ''https'' @ [CHR 0x27] @ '' scheme is not supported.''))
   \<and> fst (host_actions (before_connect (no_actions\<lparr>before_connect := [CancelCurrentRequest]\<rparr>))
          (new_client GeminiClient example_settings))
     = (new_client GeminiClient example_settings)\<lparr>cancelled := True\<rparr>"
proof -
  let ?w = "[CHR 0x27] @ ''https'' @ [CHR 0x27] @ '' scheme is not supported.''"
  let ?e = "example_env (PostThrew (StdException ?w))"
  let ?c = "(new_client GeminiClient example_settings)\<lparr>cancelled := True\<rparr>"
  have k: "kind ?c = GeminiClient" "is_available ?c"
    by (simp_all add: new_client_def is_available_def example_settings_def)
  have post: "http_post ?e rq = PostThrew (StdException ?w)" for rq by (simp add: example_env_def)
  have rq: "gemini_request ?c b = gemini_request (new_client GeminiClient example_settings) b" for b
    by (simp add: gemini_request_def new_client_def)
  have host: "req_host (gemini_request ?c b) = ''https://generativelanguage.googleapis.com''" for b
    by (simp add: gemini_request_def)
  have na: "during_post (no_actions\<lparr>before_connect := [CancelCurrentRequest]\<rparr>) = []"
    by (simp add: no_actions_def)
  have c: "?c\<lparr>http_client := True, http_client := False\<rparr> = ?c" by (simp add: new_client_def)
  have 1: "blocking_generate ?e (no_actions\<lparr>before_connect := [CancelCurrentRequest]\<rparr>) ?c
             ''Explain this function.'' 0
     = (?c,
        [HttpPost (gemini_request (new_client GeminiClient example_settings) example_payload_text),
         Warning (''AI Assistant: API call to https://generativelanguage.googleapis.com failed: ''
                  @ ?w @ [nl])],
        Returns (''Error: API call failed. Details: '' @ ?w))"
    using post
    by (simp add: blocking_generate_def k example_dump_simps http_post_request_def Let_def
          na api_call_failed_def host rq [symmetric] c c_str_def del: append.simps)
  have 2: "fst (host_actions (before_connect (no_actions\<lparr>before_connect := [CancelCurrentRequest]\<rparr>))
          (new_client GeminiClient example_settings)) = ?c"
    by (simp add: host_action_def cancel_current_request_def new_client_def)
  show ?thesis using 1 2 by simp
qed

subsection \<open>C8: the client factory\<close>

text \<open>
  C8. \<open>get_ai_client\<close> compares the configured provider name without regard to case: for
  every capitalization of \<open>gemini\<close>, \<open>openai\<close>, \<open>anthropic\<close> and \<open>copilot\<close> it
  constructs the adapter of that name, and for every name whose lower-case form is none
  of the four it returns no client, after a warning that names the provider. A name
  (without a NUL byte) that is a capitalization of none of the four is such a name.
\<close>

theorem get_ai_client_by_name:
  "(is_capitalization (api_provider s) ''gemini'' \<longrightarrow>
      fst (get_ai_client s) = Some (new_client GeminiClient s))
   \<and> (is_capitalization (api_provider s) ''openai'' \<longrightarrow>
      fst (get_ai_client s) = Some (new_client OpenAIClient s))
   \<and> (is_capitalization (api_provider s) ''anthropic'' \<longrightarrow>
      fst (get_ai_client s) = Some (new_client AnthropicClient s))
   \<and> (is_capitalization (api_provider s) ''copilot'' \<longrightarrow>
      fst (get_ai_client s) = Some (new_client CopilotClient s))
   \<and> (qstrlwr (c_str (api_provider s)) \<notin> {''gemini'', ''openai'', ''anthropic'', ''copilot''} \<longrightarrow>
      get_ai_client s =
        (None,
         [Msg (''AI Assistant: Initializing AI provider: '' @ qstrlwr (c_str (api_provider s)) @ [nl]),
          Warning (''AI Assistant: Unknown AI provider '' @ [CHR 0x27]
                   @ qstrlwr (c_str (api_provider s)) @ [CHR 0x27]
                   @ '' in settings. No AI features will be available.'')]))
   \<and> (CHR 0x00 \<notin> set (api_provider s)
        \<and> \<not> is_capitalization (api_provider s) ''gemini''
        \<and> \<not> is_capitalization (api_provider s) ''openai''
        \<and> \<not> is_capitalization (api_provider s) ''anthropic''
        \<and> \<not> is_capitalization (api_provider s) ''copilot'' \<longrightarrow>
      qstrlwr (c_str (api_provider s)) \<notin> {''gemini'', ''openai'', ''anthropic'', ''copilot''})"
proof -
  have 1: "fst (get_ai_client s) = Some (new_client GeminiClient s)"
    if "is_capitalization (api_provider s) ''gemini''"
    using capitalization_lowered [OF that [unfolded is_capitalization_def] provider_names_lower(1)]
    by (simp add: get_ai_client_def Let_def)
  have 2: "fst (get_ai_client s) = Some (new_client OpenAIClient s)"
    if "is_capitalization (api_provider s) ''openai''"
    using capitalization_lowered [OF that [unfolded is_capitalization_def] provider_names_lower(2)]
    by (simp add: get_ai_client_def Let_def)
  have 3: "fst (get_ai_client s) = Some (new_client AnthropicClient s)"
    if "is_capitalization (api_provider s) ''anthropic''"
    using capitalization_lowered [OF that [unfolded is_capitalization_def] provider_names_lower(3)]
    by (simp add: get_ai_client_def Let_def)
  have 4: "fst (get_ai_client s) = Some (new_client CopilotClient s)"
    if "is_capitalization (api_provider s) ''copilot''"
    using capitalization_lowered [OF that [unfolded is_capitalization_def] provider_names_lower(4)]
    by (simp add: get_ai_client_def Let_def)
  have 5: "get_ai_client s =
        (None,
         [Msg (''AI Assistant: Initializing AI provider: '' @ qstrlwr (c_str (api_provider s)) @ [nl]),
          Warning (''AI Assistant: Unknown AI provider '' @ [CHR 0x27]
                   @ qstrlwr (c_str (api_provider s)) @ [CHR 0x27]
                   @ '' in settings. No AI features will be available.'')])"
    if "qstrlwr (c_str (api_provider s)) \<notin> {''gemini'', ''openai'', ''anthropic'', ''copilot''}"
    using that by (simp add: get_ai_client_def Let_def)
  have 6: "qstrlwr (c_str (api_provider s)) \<notin> {''gemini'', ''openai'', ''anthropic'', ''copilot''}"
    if "CHR 0x00 \<notin> set (api_provider s)"
      and "\<not> is_capitalization (api_provider s) ''gemini''"
      and "\<not> is_capitalization (api_provider s) ''openai''"
      and "\<not> is_capitalization (api_provider s) ''anthropic''"
      and "\<not> is_capitalization (api_provider s) ''copilot''"
    using not_capitalization_not_lowered [OF that(1,2) provider_names_lower(1)]
          not_capitalization_not_lowered [OF that(1,3) provider_names_lower(2)]
          not_capitalization_not_lowered [OF that(1,4) provider_names_lower(3)]
          not_capitalization_not_lowered [OF that(1,5) provider_names_lower(4)]
    by simp
  show ?thesis using 1 2 3 4 5 6 by blast
qed

theorem get_ai_client_by_name_witness:
  "fst (get_ai_client example_settings) = Some (new_client GeminiClient example_settings)
   \<and> fst (get_ai_client (example_settings\<lparr>api_provider := ''OPENAI''\<rparr>))
       = Some (new_client OpenAIClient (example_settings\<lparr>api_provider := ''OPENAI''\<rparr>))
   \<and> fst (get_ai_client (example_settings\<lparr>api_provider := ''AnThRoPiC''\<rparr>))
       = Some (new_client AnthropicClient (example_settings\<lparr>api_provider := ''AnThRoPiC''\<rparr>))
   \<and> fst (get_ai_client (example_settings\<lparr>api_provider := ''copilot''\<rparr>))
       = Some (new_client CopilotClient (example_settings\<lparr>api_provider := ''copilot''\<rparr>))
   \<and> \<not> is_capitalization ''Llama'' ''gemini'' \<and> \<not> is_capitalization ''Llama'' ''openai''
   \<and> \<not> is_capitalization ''Llama'' ''anthropic'' \<and> \<not> is_capitalization ''Llama'' ''copilot''
   \<and> get_ai_client (example_settings\<lparr>api_provider := ''Llama''\<rparr>)
       = (None,
          [Msg (''AI Assistant: Initializing AI provider: llama'' @ [nl]),
           Warning (''AI Assistant: Unknown AI provider '' @ [CHR 0x27] @ ''llama'' @ [CHR 0x27]
                    @ '' in settings. No AI features will be available.'')])"
proof -
  have up: "to_upper CHR ''g'' = CHR ''G''" "to_upper CHR ''o'' = CHR ''O''"
    "to_upper CHR ''p'' = CHR ''P''" "to_upper CHR ''e'' = CHR ''E''"
    "to_upper CHR ''n'' = CHR ''N''" "to_upper CHR ''a'' = CHR ''A''"
    "to_upper CHR ''i'' = CHR ''I''" "to_upper CHR ''t'' = CHR ''T''"
    "to_upper CHR ''h'' = CHR ''H''" "to_upper CHR ''r'' = CHR ''R''"
    "to_upper CHR ''c'' = CHR ''C''" "to_upper CHR ''m'' = CHR ''M''"
    "to_upper CHR ''l'' = CHR ''L''"
    by code_simp+
  have a: "is_capitalization (api_provider example_settings) ''gemini''"
    by (simp add: is_capitalization_def example_settings_def up)
  have b: "is_capitalization (api_provider (example_settings\<lparr>api_provider := ''OPENAI''\<rparr>)) ''openai''"
    by (simp add: is_capitalization_def up)
  have c: "is_capitalization (api_provider (example_settings\<lparr>api_provider := ''AnThRoPiC''\<rparr>))
             ''anthropic''"
    by (simp add: is_capitalization_def up)
  have d: "is_capitalization (api_provider (example_settings\<lparr>api_provider := ''copilot''\<rparr>))
             ''copilot''"
    by (simp add: is_capitalization_def)
  have l: "qstrlwr (c_str ''Llama'') = ''llama''" by code_simp
  have n: "\<not> is_capitalization ''Llama'' ''gemini''" "\<not> is_capitalization ''Llama'' ''openai''"
          "\<not> is_capitalization ''Llama'' ''anthropic''" "\<not> is_capitalization ''Llama'' ''copilot''"
    by (simp_all add: is_capitalization_def up)
  have z: "CHR 0x00 \<notin> set (api_provider (example_settings\<lparr>api_provider := ''Llama''\<rparr>))"
    by simp
  have "get_ai_client (example_settings\<lparr>api_provider := ''Llama''\<rparr>)
       = (None,
          [Msg (''AI Assistant: Initializing AI provider: llama'' @ [nl]),
           Warning (''AI Assistant: Unknown AI provider '' @ [CHR 0x27] @ ''llama'' @ [CHR 0x27]
                    @ '' in settings. No AI features will be available.'')])"
    using get_ai_client_by_name [of "example_settings\<lparr>api_provider := ''Llama''\<rparr>"] z n
    by (simp add: l)
  then show ?thesis
    using get_ai_client_by_name [of example_settings] a
          get_ai_client_by_name [of "example_settings\<lparr>api_provider := ''OPENAI''\<rparr>"] b
          get_ai_client_by_name [of "example_settings\<lparr>api_provider := ''AnThRoPiC''\<rparr>"] c
          get_ai_client_by_name [of "example_settings\<lparr>api_provider := ''copilot''\<rparr>"] d
          n
    by simp
qed

subsection \<open>C10: a prompt context that could not be built\<close>

text \<open>
  C10. When the prompt context has \<open>ok\<close> false and a string \<open>message\<close>, each of
  \<open>analyze_function\<close>, \<open>suggest_name\<close>, \<open>generate_struct\<close>, \<open>generate_hook\<close> and
  \<open>custom_query\<close>, given a callback, invokes it exactly once on the calling thread with
  that message and does nothing else: the client is unchanged, no request is started, no
  timer is registered, no worker is spawned, nothing is posted. \<open>locate_global_pointer\<close>
  in the same situation invokes its address callback once with \<open>BADADDR\<close>.
\<close>

theorem failed_context_calls_back_at_once:
  assumes "\<And>include_struct_context max_len.
             get_context_for_prompt e ea include_struct_context max_len = ctx"
    and "json_path ctx [Key ''ok''] = Some (JBool False)"
    and "json_path ctx [Key ''message''] = Some (JString m)"
  shows "analyze_function e c ea (Some f) = (c, None, [CallbackInvoked m], thrown (f m))
       \<and> suggest_name e c ea (Some f) = (c, None, [CallbackInvoked m], thrown (f m))
       \<and> generate_struct e c ea (Some f) = (c, None, [CallbackInvoked m], thrown (f m))
       \<and> generate_hook e c ea (Some f) = (c, None, [CallbackInvoked m], thrown (f m))
       \<and> custom_query e c ea question (Some f) = (c, None, [CallbackInvoked m], thrown (f m))
       \<and> locate_global_pointer e c ea target_name (Some g)
           = (c, None, [AddrCallbackInvoked BADADDR], thrown (g BADADDR))"
  by (simp add: analyze_function_def suggest_name_def generate_struct_def generate_hook_def
        custom_query_def locate_global_pointer_def assms(1)
        context_guard_failed [OF assms(2,3)] context_ok_false [OF assms(2)] invoke_addr_def)

theorem failed_context_calls_back_at_once_witness:
  "analyze_function (example_env (PostFailed Canceled)) (new_client GeminiClient example_settings)
     0x401000 quiet_callback
     = (new_client GeminiClient example_settings, None,
        [CallbackInvoked ''Failed to decompile function.''], Returns ())
   \<and> custom_query (example_env (PostFailed Canceled)) (new_client GeminiClient example_settings)
     0x401000 ''What does it do?'' quiet_callback
     = (new_client GeminiClient example_settings, None,
        [CallbackInvoked ''Failed to decompile function.''], Returns ())
   \<and> locate_global_pointer (example_env (PostFailed Canceled))
     (new_client GeminiClient example_settings) 0x401000 ''g_world'' (Some (\<lambda>a. None))
     = (new_client GeminiClient example_settings, None,
        [AddrCallbackInvoked BADADDR], Returns ())"
proof -
  have h1: "get_context_for_prompt (example_env (PostFailed Canceled)) 0x401000 s n = failed_context"
    for s n by (simp add: example_env_def)
  have h2: "json_path failed_context [Key ''ok''] = Some (JBool False)"
    by (simp add: failed_context_def)
  have h3: "json_path failed_context [Key ''message''] = Some (JString ''Failed to decompile function.'')"
    by (simp add: failed_context_def)
  show ?thesis
    using failed_context_calls_back_at_once [OF h1 h2 h3,
            of "new_client GeminiClient example_settings" "\<lambda>s. None" "''What does it do?''"
               "''g_world''" "\<lambda>a. None"]
    by (simp add: quiet_callback_def thrown_def)
qed

end
